theory Spec2Isabelle
  imports Main "HOL-Library.Extended_Nat" "HOL-Library.List_Lexorder" "HOL-Library.Char_ord"
begin

section \<open>Errors\<close>

text \<open>
  The three error classes the sources throw: \<open>XDLError(code, message)\<close>,
  \<open>CommandError(code, message)\<close> and the plain JavaScript \<open>Error(message)\<close>, and the
  \<open>TypeError\<close> the language raises on a call of something that is not a function.
  \<open>e.code\<close> is \<open>undefined\<close> on an \<open>Error\<close> and on a \<open>TypeError\<close>.
\<close>

datatype err = XDLError string string | CommandError string string | Error string
  | TypeError string

fun err_code :: "err \<Rightarrow> string option" where
  "err_code (XDLError c m) = Some c"
| "err_code (CommandError c m) = Some c"
| "err_code (Error m) = None"
| "err_code (TypeError m) = None"

text \<open>
  Modelled from the spec: the constant \<open>ErrorCodes.NON_INTERACTIVE\<close> of the module
  \<open>CommandError\<close>, which is not among the sources; the spec calls the error kind
  NonInteractive, the constant is taken to be its own name.
\<close>

definition ErrorCodes_NON_INTERACTIVE :: string where
  "ErrorCodes_NON_INTERACTIVE = ''NON_INTERACTIVE''"

section \<open>Data model of the iOS builder\<close>

text \<open>
  Modelled from the spec: the four credential artifacts of section 3 (the types
  \<open>IosDistCredentials\<close>, \<open>IosPushCredentials\<close> and \<open>IosAppCredentials\<close> are imported by
  \<open>IOSBuilder.ts\<close> from a module that is not among the sources).
\<close>

record DistributionCertificate =
  dc_identifier :: string
  dc_material :: string
  dc_privateKey :: string
  dc_remoteId :: "string option"

record PushKey =
  pk_identifier :: string
  pk_material :: string
  pk_remoteId :: "string option"

record PushCertificate =
  pc_identifier :: string
  pc_material :: string

record ProvisioningProfile =
  pp_identifier :: string
  pp_scoping :: string
  pp_distCertId :: string

record AppCredentialBundle =
  distributionCert :: "DistributionCertificate option"
  pushKey :: "PushKey option"
  pushCert :: "PushCertificate option"
  provisioningProfile :: "ProvisioningProfile option"

definition emptyBundle :: AppCredentialBundle where
  "emptyBundle = \<lparr>distributionCert = None, pushKey = None, pushCert = None,
     provisioningProfile = None\<rparr>"

text \<open>The value \<open>ctx.ios.getAppCredentials\<close> returns: the bundle with its key.\<close>

record IosAppCredentials =
  ac_experienceName :: string
  ac_bundleIdentifier :: string
  ac_credentials :: AppCredentialBundle

datatype AppleCtx = AppleCtx string

text \<open>
  The credential store is keyed by (experienceName, bundleIdentifier); it is an association
  list so that the report step can be handed all of it, as \<open>getAllCredentials\<close> does.
  \<open>appleCtx\<close> is the field of the credentials \<open>Context\<close> that \<open>hasAppleCtx\<close> tests;
  \<open>remote\<close> is whatever else the collaborators act on (the remote authority, the terminal).
\<close>

type_synonym credential_store = "((string \<times> string) \<times> AppCredentialBundle) list"

record 'r world =
  appleCtx :: "AppleCtx option"
  store :: credential_store
  remote :: 'r

definition getBundle :: "'r world \<Rightarrow> string \<Rightarrow> string \<Rightarrow> AppCredentialBundle" where
  "getBundle w experienceName bundleIdentifier =
     (case map_of (store w) (experienceName, bundleIdentifier) of
        None \<Rightarrow> emptyBundle | Some b \<Rightarrow> b)"

text \<open>
  Modelled from the spec: the Credential Store Client of section 6
  (\<open>get(experienceName, bundleIdentifier, type) -> Artifact | absent\<close>, \<open>delete\<close>), the
  object \<open>ctx.ios\<close> of the sources; reads do not fail and do not change the store.
\<close>

definition getDistCert :: "'r world \<Rightarrow> string \<Rightarrow> string \<Rightarrow> DistributionCertificate option" where
  "getDistCert w experienceName bundleIdentifier =
     distributionCert (getBundle w experienceName bundleIdentifier)"

definition getPushKey :: "'r world \<Rightarrow> string \<Rightarrow> string \<Rightarrow> PushKey option" where
  "getPushKey w experienceName bundleIdentifier =
     pushKey (getBundle w experienceName bundleIdentifier)"

definition getPushCert :: "'r world \<Rightarrow> string \<Rightarrow> string \<Rightarrow> PushCertificate option" where
  "getPushCert w experienceName bundleIdentifier =
     pushCert (getBundle w experienceName bundleIdentifier)"

definition getProvisioningProfile ::
  "'r world \<Rightarrow> string \<Rightarrow> string \<Rightarrow> ProvisioningProfile option" where
  "getProvisioningProfile w experienceName bundleIdentifier =
     provisioningProfile (getBundle w experienceName bundleIdentifier)"

definition getAppCredentials :: "'r world \<Rightarrow> string \<Rightarrow> string \<Rightarrow> IosAppCredentials" where
  "getAppCredentials w experienceName bundleIdentifier =
     \<lparr>ac_experienceName = experienceName, ac_bundleIdentifier = bundleIdentifier,
      ac_credentials = getBundle w experienceName bundleIdentifier\<rparr>"

definition getAllCredentials :: "'r world \<Rightarrow> credential_store" where
  "getAllCredentials w = store w"

definition putBundle ::
  "string \<Rightarrow> string \<Rightarrow> AppCredentialBundle \<Rightarrow> credential_store \<Rightarrow> credential_store" where
  "putBundle experienceName bundleIdentifier b st =
     (if map_of st (experienceName, bundleIdentifier) = None
      then st @ [((experienceName, bundleIdentifier), b)]
      else map (\<lambda>(k, old). (k, if k = (experienceName, bundleIdentifier) then b else old)) st)"

definition deletePushCert ::
  "string \<Rightarrow> string \<Rightarrow> 'r world \<Rightarrow> (err + unit) \<times> 'r world" where
  "deletePushCert experienceName bundleIdentifier w =
     (Inr (), w\<lparr>store := putBundle experienceName bundleIdentifier
        ((getBundle w experienceName bundleIdentifier)\<lparr>pushCert := None\<rparr>) (store w)\<rparr>)"

subsection \<open>Builder fields\<close>

text \<open>
  \<open>this.options\<close>: a flag is a \<open>bool option\<close>, \<open>None\<close> where the command line did not
  give it; \<open>parent\<close> is the parent command's option bag.
\<close>

record parent_options =
  nonInteractive :: "bool option"

record options =
  opt_parent :: "parent_options option"
  opt_appleId :: "string option"
  opt_teamId :: "string option"
  opt_skipCredentialsCheck :: "bool option"
  opt_clearCredentials :: "bool option"
  opt_clearDistCert :: "bool option"
  opt_clearPushKey :: "bool option"
  opt_clearPushCert :: "bool option"
  opt_clearProvisioningProfile :: "bool option"
  opt_revokeCredentials :: "bool option"

record ios_manifest =
  bundleIdentifier :: "string option"

record manifest =
  owner :: "string option"
  slug :: "string option"
  ios :: "ios_manifest option"

record user =
  username :: "string option"

record builder =
  this_options :: options
  this_manifest :: manifest
  this_projectDir :: string

text \<open>JavaScript truthiness of an optional flag and of an optional string.\<close>

definition truthy :: "bool option \<Rightarrow> bool" where
  "truthy b = (b = Some True)"

definition truthy_str :: "string option \<Rightarrow> bool" where
  "truthy_str s = (case s of None \<Rightarrow> False | Some t \<Rightarrow> t \<noteq> [])"

text \<open>A template literal prints an absent value as \<open>undefined\<close>.\<close>

definition template_str :: "string option \<Rightarrow> string" where
  "template_str s = (case s of None \<Rightarrow> ''undefined'' | Some t \<Rightarrow> t)"

text \<open>\<open>this.options.parent && this.options.parent.nonInteractive\<close>, as a condition.\<close>

definition nonInteractive_of :: "options \<Rightarrow> bool" where
  "nonInteractive_of opts =
     (case opt_parent opts of None \<Rightarrow> False | Some p \<Rightarrow> truthy (nonInteractive p))"

subsection \<open>Collaborator calls and their trace\<close>

text \<open>
  Every call the builder makes to a collaborator is recorded, in order, with its
  arguments. \<open>chalk\<close> only colours a message and is left out.
\<close>

datatype event =
    EvGetUserAsync
  | EvContextInit string
  | EvPrompt string
  | EvEnsureAppleCtx options
  | EvEnsureAppExists AppleCtx string string bool
  | EvUseDistCertFromParams IosAppCredentials DistributionCertificate
  | EvSetupIosDist string string bool
  | EvUsePushKeyFromParams IosAppCredentials PushKey
  | EvSetupIosPush string string bool
  | EvUseProvisioningProfileFromParams IosAppCredentials "string option"
      ProvisioningProfile DistributionCertificate
  | EvSetupIosProvisioningProfile string string DistributionCertificate bool
  | EvRemoveIosDist bool bool DistributionCertificate
  | EvRemoveIosPush bool bool PushKey
  | EvRemoveProvisioningProfile bool bool IosAppCredentials
  | EvDeletePushCert string string
  | EvDisplayProjectCredentials string string credential_store
  | EvLog string
  | EvLogError string
  | EvLogNewLine

record 'r state =
  world :: "'r world"
  trace :: "event list"

type_synonym ('r, 'a) action = "'r world \<Rightarrow> (err + 'a) \<times> 'r world"

type_synonym ('r, 'a) prog = "'r state \<Rightarrow> (err + 'a) \<times> 'r state"

text \<open>
  The collaborators of \<open>IOSBuilder.ts\<close> that are not among the sources, taken as
  parameters. Each may fail and may change the world before it fails.
  \<open>getUserAsync\<close> is the method of \<open>BaseBuilder\<close>, which is not among the sources
  either.
\<close>

record 'r env =
  getUserAsync :: "('r, user option) action"
  terminalLink :: "string \<Rightarrow> string \<Rightarrow> string"
  contextInit :: "string \<Rightarrow> ('r, unit) action"
  prompt_confirm :: "string \<Rightarrow> ('r, bool) action"
  ensureAppleCtx :: "options \<Rightarrow> ('r, unit) action"
  ensureAppExists :: "AppleCtx \<Rightarrow> string \<Rightarrow> string \<Rightarrow> bool \<Rightarrow> ('r, unit) action"
  getDistCertFromParams :: "options \<Rightarrow> err + DistributionCertificate option"
  useDistCertFromParams :: "IosAppCredentials \<Rightarrow> DistributionCertificate \<Rightarrow> ('r, unit) action"
  runSetupIosDist :: "string \<Rightarrow> string \<Rightarrow> bool \<Rightarrow> ('r, unit) action"
  getPushKeyFromParams :: "options \<Rightarrow> err + PushKey option"
  usePushKeyFromParams :: "IosAppCredentials \<Rightarrow> PushKey \<Rightarrow> ('r, unit) action"
  runSetupIosPush :: "string \<Rightarrow> string \<Rightarrow> bool \<Rightarrow> ('r, unit) action"
  getProvisioningProfileFromParams :: "options \<Rightarrow> err + ProvisioningProfile option"
  useProvisioningProfileFromParams ::
    "IosAppCredentials \<Rightarrow> string option \<Rightarrow> ProvisioningProfile \<Rightarrow> DistributionCertificate
       \<Rightarrow> ('r, unit) action"
  runSetupIosProvisioningProfile ::
    "string \<Rightarrow> string \<Rightarrow> DistributionCertificate \<Rightarrow> bool \<Rightarrow> ('r, unit) action"
  removeIosDist :: "bool \<Rightarrow> bool \<Rightarrow> DistributionCertificate \<Rightarrow> ('r, unit) action"
  removeIosPush :: "bool \<Rightarrow> bool \<Rightarrow> PushKey \<Rightarrow> ('r, unit) action"
  removeProvisioningProfile :: "bool \<Rightarrow> bool \<Rightarrow> IosAppCredentials \<Rightarrow> ('r, unit) action"

subsection \<open>Sequencing, \<open>throw\<close>, \<open>try\<close>/\<open>catch\<close>/\<open>finally\<close>\<close>

definition returnM :: "'a \<Rightarrow> ('r, 'a) prog" where
  "returnM x s = (Inr x, s)"

definition throwM :: "err \<Rightarrow> ('r, 'a) prog" where
  "throwM e s = (Inl e, s)"

definition bindM :: "('r, 'a) prog \<Rightarrow> ('a \<Rightarrow> ('r, 'b) prog) \<Rightarrow> ('r, 'b) prog" where
  "bindM m f s = (case m s of (Inl e, s') \<Rightarrow> (Inl e, s') | (Inr x, s') \<Rightarrow> f x s')"

definition catchM :: "('r, 'a) prog \<Rightarrow> (err \<Rightarrow> ('r, 'a) prog) \<Rightarrow> ('r, 'a) prog" where
  "catchM m h s = (case m s of (Inl e, s') \<Rightarrow> h e s' | (Inr x, s') \<Rightarrow> (Inr x, s'))"

text \<open>
  \<open>finally\<close>: the block runs after the body whatever its outcome; the body's outcome
  stands unless the block itself throws.
\<close>

definition finallyM :: "('r, 'a) prog \<Rightarrow> ('r, unit) prog \<Rightarrow> ('r, 'a) prog" where
  "finallyM m fin s =
     (case m s of (r, s') \<Rightarrow>
        (case fin s' of (Inl e, s'') \<Rightarrow> (Inl e, s'') | (Inr u, s'') \<Rightarrow> (r, s'')))"

definition emit :: "event \<Rightarrow> ('r, unit) prog" where
  "emit ev s = (Inr (), s\<lparr>trace := trace s @ [ev]\<rparr>)"

definition call :: "event \<Rightarrow> ('r, 'a) action \<Rightarrow> ('r, 'a) prog" where
  "call ev f s =
     (case f (world s) of (r, w') \<Rightarrow> (r, \<lparr>world = w', trace = trace s @ [ev]\<rparr>))"

definition liftE :: "err + 'a \<Rightarrow> ('r, 'a) prog" where
  "liftE r s = (r, s)"

section \<open>\<open>IOSBuilder.ts\<close>\<close>

definition noBundleIdMessage :: string where
  "noBundleIdMessage =
     ''Your project must have a `bundleIdentifier` set in the Expo config (app.json or app.config.js).''
     @ [CHR 0x0A] @ ''See https://expo.fyi/bundle-identifier''"

definition missingBundleIdentifierError :: err where
  "missingBundleIdentifierError = XDLError ''INVALID_OPTIONS'' noBundleIdMessage"

definition authPromptMessage :: string where
  "authPromptMessage =
     ''Do you have access to the Apple account that will be used for submitting this app to the App Store?''"

text \<open>The message of the negative answer; its two non-ASCII characters are in UTF-8.\<close>

definition noProblemMessage :: string where
  "noProblemMessage =
     ''No problem! '' @ [CHR 0xF0, CHR 0x9F, CHR 0x91, CHR 0x8C] @ '' '' @ [CHR 0x0A]
     @ ''We can'' @ [CHR 0xE2, CHR 0x80, CHR 0x99] @ ''t auto-generate credentials if you don''
     @ [CHR 0xE2, CHR 0x80, CHR 0x99]
     @ ''t have access to the main Apple account. '' @ [CHR 0x0A]
     @ ''But we can still set it up if you upload your credentials.''"

definition bestEffortAppleCtx :: "'r env \<Rightarrow> builder \<Rightarrow> ('r, unit) prog" where
  "bestEffortAppleCtx env this s =
     (if appleCtx (world s) \<noteq> None then returnM () s
      else if truthy_str (opt_appleId (this_options this))
      then call (EvEnsureAppleCtx (this_options this))
             (ensureAppleCtx env (this_options this)) s
      else if nonInteractive_of (this_options this) then returnM () s
      else bindM (call (EvPrompt authPromptMessage) (prompt_confirm env authPromptMessage))
             (\<lambda>confirm.
                if confirm
                then call (EvEnsureAppleCtx (this_options this))
                       (ensureAppleCtx env (this_options this))
                else emit (EvLog noProblemMessage)) s)"

definition getUsernameAsync :: "'r env \<Rightarrow> builder \<Rightarrow> ('r, string option) prog" where
  "getUsernameAsync env this =
     (if truthy_str (owner (this_manifest this)) then returnM (owner (this_manifest this))
      else bindM (call EvGetUserAsync (getUserAsync env))
             (\<lambda>user. returnM (case user of None \<Rightarrow> None | Some u \<Rightarrow> username u)))"

text \<open>\<open>_setupDistCert\<close> (an Isabelle name cannot start with an underscore).\<close>

definition setupDistCert ::
  "'r env \<Rightarrow> builder \<Rightarrow> string \<Rightarrow> string \<Rightarrow> IosAppCredentials \<Rightarrow> ('r, unit) prog" where
  "setupDistCert env this experienceName bundleId appCredentials =
     catchM
       (bindM (liftE (getDistCertFromParams env (this_options this)))
          (\<lambda>distCertFromParams.
             case distCertFromParams of
               Some dc \<Rightarrow>
                 call (EvUseDistCertFromParams appCredentials dc)
                   (useDistCertFromParams env appCredentials dc)
             | None \<Rightarrow>
                 call (EvSetupIosDist experienceName bundleId
                         (nonInteractive_of (this_options this)))
                   (runSetupIosDist env experienceName bundleId
                      (nonInteractive_of (this_options this)))))
       (\<lambda>e. bindM (emit (EvLogError ''Failed to set up Distribution Certificate''))
               (\<lambda>u. throwM e))"

text \<open>\<open>_setupPushCert\<close>.\<close>

definition setupPushCert ::
  "'r env \<Rightarrow> builder \<Rightarrow> string \<Rightarrow> string \<Rightarrow> IosAppCredentials \<Rightarrow> ('r, unit) prog" where
  "setupPushCert env this experienceName bundleId appCredentials =
     catchM
       (bindM (liftE (getPushKeyFromParams env (this_options this)))
          (\<lambda>pushKeyFromParams.
             case pushKeyFromParams of
               Some pk \<Rightarrow>
                 call (EvUsePushKeyFromParams appCredentials pk)
                   (usePushKeyFromParams env appCredentials pk)
             | None \<Rightarrow>
                 call (EvSetupIosPush experienceName bundleId
                         (nonInteractive_of (this_options this)))
                   (runSetupIosPush env experienceName bundleId
                      (nonInteractive_of (this_options this)))))
       (\<lambda>e. bindM (emit (EvLogError ''Failed to set up Push Key'')) (\<lambda>u. throwM e))"

text \<open>\<open>_setupProvisioningProfile\<close>.\<close>

definition setupProvisioningProfile ::
  "'r env \<Rightarrow> builder \<Rightarrow> string \<Rightarrow> string \<Rightarrow> IosAppCredentials \<Rightarrow> DistributionCertificate
     \<Rightarrow> ('r, unit) prog" where
  "setupProvisioningProfile env this experienceName bundleId appCredentials distCert =
     catchM
       (bindM (liftE (getProvisioningProfileFromParams env (this_options this)))
          (\<lambda>provisioningProfileFromParams.
             case provisioningProfileFromParams of
               Some pp \<Rightarrow>
                 call (EvUseProvisioningProfileFromParams appCredentials
                         (opt_teamId (this_options this)) pp distCert)
                   (useProvisioningProfileFromParams env appCredentials
                      (opt_teamId (this_options this)) pp distCert)
             | None \<Rightarrow>
                 call (EvSetupIosProvisioningProfile experienceName bundleId distCert
                         (nonInteractive_of (this_options this)))
                   (runSetupIosProvisioningProfile env experienceName bundleId distCert
                      (nonInteractive_of (this_options this)))))
       (\<lambda>e. bindM (emit (EvLogError ''Failed to set up Provisioning Profile''))
               (\<lambda>u. throwM e))"

definition insufficientCredentialsError :: err where
  "insufficientCredentialsError =
     CommandError ''INSUFFICIENT_CREDENTIALS''
       ''This build request requires a valid distribution certificate.''"

definition produceCredentials ::
  "'r env \<Rightarrow> builder \<Rightarrow> string \<Rightarrow> string \<Rightarrow> ('r, unit) prog" where
  "produceCredentials env this experienceName bundleId s =
     (let appCredentials = getAppCredentials (world s) experienceName bundleId
      in bindM
           (case appleCtx (world s) of
              Some actx \<Rightarrow>
                call (EvEnsureAppExists actx experienceName bundleId True)
                  (ensureAppExists env actx experienceName bundleId True)
            | None \<Rightarrow> returnM ())
           (\<lambda>u. bindM (setupDistCert env this experienceName bundleId appCredentials)
              (\<lambda>u s1.
                 case getDistCert (world s1) experienceName bundleId of
                   None \<Rightarrow> throwM insufficientCredentialsError s1
                 | Some distCert \<Rightarrow>
                     bindM (setupPushCert env this experienceName bundleId appCredentials)
                       (\<lambda>u. setupProvisioningProfile env this experienceName bundleId
                               appCredentials distCert) s1)) s)"

text \<open>
  \<open>determineCredentialsToClear\<close>: the object literal in its key order, then
  \<open>pickBy\<close>, which keeps the entries whose value is truthy.
\<close>

definition pickBy :: "(string \<times> bool) list \<Rightarrow> (string \<times> bool) list" where
  "pickBy obj = filter (\<lambda>kv. snd kv) obj"

definition determineCredentialsToClear :: "builder \<Rightarrow> (string \<times> bool) list" where
  "determineCredentialsToClear this =
     (let opts = this_options this;
          credsToClearAll =
            [(''distributionCert'',
                truthy (opt_clearCredentials opts) \<or> truthy (opt_clearDistCert opts)),
             (''pushKey'',
                truthy (opt_clearCredentials opts) \<or> truthy (opt_clearPushKey opts)),
             (''pushCert'',
                truthy (opt_clearCredentials opts) \<or> truthy (opt_clearPushCert opts)),
             (''provisioningProfile'',
                truthy (opt_clearCredentials opts) \<or> truthy (opt_clearProvisioningProfile opts))]
      in pickBy credsToClearAll)"

text \<open>A property read \<open>credsToClear.key\<close> as a condition: an absent key is falsy.\<close>

definition requested :: "(string \<times> bool) list \<Rightarrow> string \<Rightarrow> bool" where
  "requested credsToClear key = (map_of credsToClear key = Some True)"

definition clearCredentials ::
  "'r env \<Rightarrow> builder \<Rightarrow> string \<Rightarrow> string \<Rightarrow> (string \<times> bool) list \<Rightarrow> ('r, unit) prog" where
  "clearCredentials env this experienceName bundleId credsToClear =
     (let shouldRevokeOnApple = truthy (opt_revokeCredentials (this_options this));
          nonInter = nonInteractive_of (this_options this)
      in (\<lambda>s0.
        bindM
          (case getDistCert (world s0) experienceName bundleId of
             Some dc \<Rightarrow>
               if requested credsToClear ''distributionCert''
               then call (EvRemoveIosDist shouldRevokeOnApple nonInter dc)
                      (removeIosDist env shouldRevokeOnApple nonInter dc)
               else returnM ()
           | None \<Rightarrow> returnM ())
          (\<lambda>u s1.
             bindM
               (case getPushKey (world s1) experienceName bundleId of
                  Some pk \<Rightarrow>
                    if requested credsToClear ''pushKey''
                    then call (EvRemoveIosPush shouldRevokeOnApple nonInter pk)
                           (removeIosPush env shouldRevokeOnApple nonInter pk)
                    else returnM ()
                | None \<Rightarrow> returnM ())
               (\<lambda>u s2.
                  let appCredentials = getAppCredentials (world s2) experienceName bundleId
                  in bindM
                       (case getProvisioningProfile (world s2) experienceName bundleId of
                          Some pp \<Rightarrow>
                            if requested credsToClear ''provisioningProfile''
                            then call (EvRemoveProvisioningProfile shouldRevokeOnApple nonInter
                                         appCredentials)
                                   (removeProvisioningProfile env shouldRevokeOnApple nonInter
                                      appCredentials)
                            else returnM ()
                        | None \<Rightarrow> returnM ())
                       (\<lambda>u s3.
                          case getPushCert (world s3) experienceName bundleId of
                            Some pc \<Rightarrow>
                              if requested credsToClear ''pushCert''
                              then call (EvDeletePushCert experienceName bundleId)
                                     (deletePushCert experienceName bundleId) s3
                              else returnM () s3
                          | None \<Rightarrow> returnM () s3) s2) s1) s0))"

definition clearAndRevokeCredentialsIfRequested ::
  "'r env \<Rightarrow> builder \<Rightarrow> string \<Rightarrow> string \<Rightarrow> ('r, unit) prog" where
  "clearAndRevokeCredentialsIfRequested env this experienceName bundleId =
     (let opts = this_options this;
          shouldClearAnything =
            (truthy (opt_clearCredentials opts) \<or> truthy (opt_clearDistCert opts)
             \<or> truthy (opt_clearPushKey opts) \<or> truthy (opt_clearPushCert opts)
             \<or> truthy (opt_clearProvisioningProfile opts))
      in if shouldClearAnything
         then clearCredentials env this experienceName bundleId
                (determineCredentialsToClear this)
         else returnM ())"

definition failedToPrepareMessage :: string where
  "failedToPrepareMessage =
     ''Failed to prepare all credentials. '' @ [CHR 0x0A]
     @ ''The next time you build, we will automatically use the following configuration:''"

definition unableToProceedError :: err where
  "unableToProceedError =
     CommandError ErrorCodes_NON_INTERACTIVE ''Unable to proceed, see the above error message.''"

text \<open>The \<open>catch\<close> block of \<open>prepareCredentials\<close>.\<close>

definition prepareCredentials_catch :: "'r env \<Rightarrow> err \<Rightarrow> ('r, unit) prog" where
  "prepareCredentials_catch env e =
     (if err_code e = Some ErrorCodes_NON_INTERACTIVE
      then bindM (emit EvLogNewLine)
        (\<lambda>u. bindM (emit (EvLog
           ''Additional information needed to setup credentials in non-interactive mode.''))
        (\<lambda>u. bindM (emit (EvLog (''Learn more about how to resolve this: ''
           @ terminalLink env ''expo.fyi/credentials-non-interactive''
               ''https://expo.fyi/credentials-non-interactive'' @ ''.'')))
        (\<lambda>u. bindM (emit EvLogNewLine)
        (\<lambda>u. throwM unableToProceedError))))
      else bindM (emit (EvLog failedToPrepareMessage)) (\<lambda>u. throwM e))"

text \<open>The \<open>finally\<close> block of \<open>prepareCredentials\<close>: the report step.\<close>

definition prepareCredentials_finally :: "string \<Rightarrow> string \<Rightarrow> ('r, unit) prog" where
  "prepareCredentials_finally experienceName bundleId s =
     (let credentials = getAllCredentials (world s)
      in emit (EvDisplayProjectCredentials experienceName bundleId credentials) s)"

text \<open>
  \<open>prepareCredentials\<close>. \<open>new Context()\<close> has no Apple session; whatever state was
  passed in holds the persisted store.
\<close>

definition prepareCredentials :: "'r env \<Rightarrow> builder \<Rightarrow> ('r, unit) prog" where
  "prepareCredentials env this =
     bindM (getUsernameAsync env this)
       (\<lambda>username s.
          let experienceName =
                ''@'' @ template_str username @ ''/''
                @ template_str (slug (this_manifest this));
              bundleId =
                (case ios (this_manifest this) of None \<Rightarrow> None
                 | Some i \<Rightarrow> bundleIdentifier i)
          in case bundleId of
               None \<Rightarrow> throwM missingBundleIdentifierError s
             | Some bid \<Rightarrow>
               if bid = [] then throwM missingBundleIdentifierError s
               else
                 bindM (call (EvContextInit (this_projectDir this))
                          (\<lambda>w. contextInit env (this_projectDir this)
                                 (w\<lparr>appleCtx := None\<rparr>)))
                   (\<lambda>u. bindM
                      (clearAndRevokeCredentialsIfRequested env this experienceName bid)
                      (\<lambda>u. if truthy (opt_skipCredentialsCheck (this_options this))
                            then emit (EvLog ''Skipping credentials check...'')
                            else bindM (bestEffortAppleCtx env this)
                              (\<lambda>u. finallyM
                                 (catchM
                                    (produceCredentials env this experienceName bid)
                                    (prepareCredentials_catch env))
                                 (prepareCredentials_finally experienceName bid)))) s)"

subsection \<open>Kinds of events\<close>

fun is_display :: "event \<Rightarrow> bool" where
  "is_display (EvDisplayProjectCredentials e b c) = True"
| "is_display ev = False"

fun is_clear_event :: "event \<Rightarrow> bool" where
  "is_clear_event (EvRemoveIosDist r n dc) = True"
| "is_clear_event (EvRemoveIosPush r n pk) = True"
| "is_clear_event (EvRemoveProvisioningProfile r n ac) = True"
| "is_clear_event (EvDeletePushCert e b) = True"
| "is_clear_event ev = False"

fun is_auth_event :: "event \<Rightarrow> bool" where
  "is_auth_event (EvPrompt m) = True"
| "is_auth_event (EvEnsureAppleCtx opts) = True"
| "is_auth_event ev = False"

fun is_registration :: "event \<Rightarrow> bool" where
  "is_registration (EvEnsureAppExists a e b p) = True"
| "is_registration ev = False"

fun is_dist_step :: "event \<Rightarrow> bool" where
  "is_dist_step (EvUseDistCertFromParams ac dc) = True"
| "is_dist_step (EvSetupIosDist e b n) = True"
| "is_dist_step ev = False"

fun is_push_step :: "event \<Rightarrow> bool" where
  "is_push_step (EvUsePushKeyFromParams ac pk) = True"
| "is_push_step (EvSetupIosPush e b n) = True"
| "is_push_step ev = False"

fun is_profile_step :: "event \<Rightarrow> bool" where
  "is_profile_step (EvUseProvisioningProfileFromParams ac t pp dc) = True"
| "is_profile_step (EvSetupIosProvisioningProfile e b dc n) = True"
| "is_profile_step ev = False"

text \<open>The distribution certificate a provisioning-profile step was handed.\<close>

fun profile_step_cert :: "event \<Rightarrow> DistributionCertificate option" where
  "profile_step_cert (EvUseProvisioningProfileFromParams ac t pp dc) = Some dc"
| "profile_step_cert (EvSetupIosProvisioningProfile e b dc n) = Some dc"
| "profile_step_cert ev = None"

definition is_production_event :: "event \<Rightarrow> bool" where
  "is_production_event ev =
     (is_registration ev \<or> is_dist_step ev \<or> is_push_step ev \<or> is_profile_step ev)"

text \<open>The events a run added to the trace.\<close>

definition new_events :: "'r state \<Rightarrow> 'r state \<Rightarrow> event list" where
  "new_events s s' = drop (length (trace s)) (trace s')"

section \<open>The removal views, from the spec\<close>

text \<open>
  Modelled from the spec: the views \<open>RemoveIosDist\<close>, \<open>RemoveIosPush\<close> and
  \<open>RemoveProvisioningProfile\<close> are not among the sources. Section 4.3: each removes its
  artifact locally and, if revocation was requested, revokes the corresponding remote
  record; section 7: an artifact with no remote record is not revoked, which is not an
  error. The remote side is the list of the revocations made.
\<close>

definition RemoveIosDist_removeSpecific ::
  "bool \<Rightarrow> bool \<Rightarrow> DistributionCertificate \<Rightarrow> (string list, unit) action" where
  "RemoveIosDist_removeSpecific shouldRevoke nonInter dc w =
     (Inr (),
      w\<lparr>store := map (\<lambda>kb. (fst kb,
                  if distributionCert (snd kb) = Some dc
                  then (snd kb)\<lparr>distributionCert := None\<rparr> else snd kb)) (store w),
        remote := (case dc_remoteId dc of
                     Some rid \<Rightarrow> if shouldRevoke then remote w @ [rid] else remote w
                   | None \<Rightarrow> remote w)\<rparr>)"

definition RemoveIosPush_removeSpecific ::
  "bool \<Rightarrow> bool \<Rightarrow> PushKey \<Rightarrow> (string list, unit) action" where
  "RemoveIosPush_removeSpecific shouldRevoke nonInter pk w =
     (Inr (),
      w\<lparr>store := map (\<lambda>kb. (fst kb,
                  if pushKey (snd kb) = Some pk
                  then (snd kb)\<lparr>pushKey := None\<rparr> else snd kb)) (store w),
        remote := (case pk_remoteId pk of
                     Some rid \<Rightarrow> if shouldRevoke then remote w @ [rid] else remote w
                   | None \<Rightarrow> remote w)\<rparr>)"

definition RemoveProvisioningProfile_removeSpecific ::
  "bool \<Rightarrow> bool \<Rightarrow> IosAppCredentials \<Rightarrow> (string list, unit) action" where
  "RemoveProvisioningProfile_removeSpecific shouldRevoke nonInter ac w =
     (Inr (),
      w\<lparr>store := map (\<lambda>kb. (fst kb,
                  if fst kb = (ac_experienceName ac, ac_bundleIdentifier ac)
                  then (snd kb)\<lparr>provisioningProfile := None\<rparr> else snd kb)) (store w),
        remote := (case provisioningProfile (ac_credentials ac) of
                     Some pp \<Rightarrow> if shouldRevoke then remote w @ [pp_identifier pp]
                                else remote w
                   | None \<Rightarrow> remote w)\<rparr>)"

definition with_spec_removers :: "string list env \<Rightarrow> string list env" where
  "with_spec_removers env =
     env\<lparr>removeIosDist := RemoveIosDist_removeSpecific,
         removeIosPush := RemoveIosPush_removeSpecific,
         removeProvisioningProfile := RemoveProvisioningProfile_removeSpecific\<rparr>"

section \<open>A test double for the collaborators\<close>

text \<open>
  Modelled from the spec: a concrete set of collaborators for running the builder, after
  section 4.1 (a resolver adopts an artifact given as a parameter and stores it; otherwise
  it reuses an artifact already in the store, or else needs the operator, which fails
  with the NonInteractive kind in non-interactive mode, or else creates the artifact and
  stores it) and section 4.3 (the removal views above). The operator answers the
  authentication question with no.
\<close>

definition demo_cert :: DistributionCertificate where
  "demo_cert = \<lparr>dc_identifier = ''cert-1'', dc_material = ''CERT'', dc_privateKey = ''KEY'',
     dc_remoteId = Some ''remote-cert-1''\<rparr>"

definition demo_key :: PushKey where
  "demo_key = \<lparr>pk_identifier = ''key-1'', pk_material = ''P8'', pk_remoteId = Some ''remote-key-1''\<rparr>"

definition demo_pushCert :: PushCertificate where
  "demo_pushCert = \<lparr>pc_identifier = ''pushcert-1'', pc_material = ''P12''\<rparr>"

definition demo_profile :: ProvisioningProfile where
  "demo_profile = \<lparr>pp_identifier = ''profile-1'', pp_scoping = ''team-1'',
     pp_distCertId = ''cert-1''\<rparr>"

definition needsOperator :: err where
  "needsOperator = CommandError ErrorCodes_NON_INTERACTIVE ''Input is required''"

definition storeDistCert ::
  "string \<Rightarrow> string \<Rightarrow> DistributionCertificate \<Rightarrow> 'r world \<Rightarrow> 'r world" where
  "storeDistCert e b dc w =
     w\<lparr>store := putBundle e b ((getBundle w e b)\<lparr>distributionCert := Some dc\<rparr>) (store w)\<rparr>"

definition storePushKey :: "string \<Rightarrow> string \<Rightarrow> PushKey \<Rightarrow> 'r world \<Rightarrow> 'r world" where
  "storePushKey e b pk w =
     w\<lparr>store := putBundle e b ((getBundle w e b)\<lparr>pushKey := Some pk\<rparr>) (store w)\<rparr>"

definition storeProfile ::
  "string \<Rightarrow> string \<Rightarrow> ProvisioningProfile \<Rightarrow> 'r world \<Rightarrow> 'r world" where
  "storeProfile e b pp w =
     w\<lparr>store := putBundle e b ((getBundle w e b)\<lparr>provisioningProfile := Some pp\<rparr>) (store w)\<rparr>"

definition demo_env :: "string list env" where
  "demo_env =
     \<lparr>getUserAsync = (\<lambda>w. (Inr (Some \<lparr>username = Some ''acme''\<rparr>), w)),
      terminalLink = (\<lambda>text url. text),
      contextInit = (\<lambda>dir w. (Inr (), w)),
      prompt_confirm = (\<lambda>msg w. (Inr False, w)),
      ensureAppleCtx =
        (\<lambda>opts w. (Inr (), w\<lparr>appleCtx := Some (AppleCtx (template_str (opt_appleId opts)))\<rparr>)),
      ensureAppExists = (\<lambda>actx e b push w. (Inr (), w)),
      getDistCertFromParams = (\<lambda>opts. Inr None),
      useDistCertFromParams =
        (\<lambda>ac dc w.
           (Inr (), storeDistCert (ac_experienceName ac) (ac_bundleIdentifier ac) dc w)),
      runSetupIosDist =
        (\<lambda>e b nonInter w.
           if getDistCert w e b \<noteq> None then (Inr (), w)
           else if nonInter then (Inl needsOperator, w)
           else (Inr (), storeDistCert e b demo_cert w)),
      getPushKeyFromParams = (\<lambda>opts. Inr None),
      usePushKeyFromParams =
        (\<lambda>ac pk w.
           (Inr (), storePushKey (ac_experienceName ac) (ac_bundleIdentifier ac) pk w)),
      runSetupIosPush =
        (\<lambda>e b nonInter w.
           if getPushKey w e b \<noteq> None then (Inr (), w)
           else if nonInter then (Inl needsOperator, w)
           else (Inr (), storePushKey e b demo_key w)),
      getProvisioningProfileFromParams = (\<lambda>opts. Inr None),
      useProvisioningProfileFromParams =
        (\<lambda>ac team pp dc w.
           (Inr (), storeProfile (ac_experienceName ac) (ac_bundleIdentifier ac) pp w)),
      runSetupIosProvisioningProfile =
        (\<lambda>e b dc nonInter w.
           if getProvisioningProfile w e b \<noteq> None then (Inr (), w)
           else if nonInter then (Inl needsOperator, w)
           else (Inr (), storeProfile e b
                   \<lparr>pp_identifier = ''profile-1'', pp_scoping = ''team-1'',
                    pp_distCertId = dc_identifier dc\<rparr> w)),
      removeIosDist = RemoveIosDist_removeSpecific,
      removeIosPush = RemoveIosPush_removeSpecific,
      removeProvisioningProfile = RemoveProvisioningProfile_removeSpecific\<rparr>"

definition demo_options :: options where
  "demo_options =
     \<lparr>opt_parent = Some \<lparr>nonInteractive = None\<rparr>, opt_appleId = None, opt_teamId = None,
      opt_skipCredentialsCheck = None, opt_clearCredentials = None, opt_clearDistCert = None,
      opt_clearPushKey = None, opt_clearPushCert = None, opt_clearProvisioningProfile = None,
      opt_revokeCredentials = None\<rparr>"

definition demo_builder :: "options \<Rightarrow> builder" where
  "demo_builder opts =
     \<lparr>this_options = opts,
      this_manifest = \<lparr>owner = Some ''acme'', slug = Some ''app'',
                       ios = Some \<lparr>bundleIdentifier = Some ''com.acme.app''\<rparr>\<rparr>,
      this_projectDir = ''/project''\<rparr>"

definition demo_state :: "credential_store \<Rightarrow> string list state" where
  "demo_state st = \<lparr>world = \<lparr>appleCtx = None, store = st, remote = []\<rparr>, trace = []\<rparr>"

definition demo_full_store :: credential_store where
  "demo_full_store =
     [((''@acme/app'', ''com.acme.app''),
       \<lparr>distributionCert = Some demo_cert, pushKey = Some demo_key,
        pushCert = Some demo_pushCert, provisioningProfile = Some demo_profile\<rparr>)]"

section \<open>Podfile rendering\<close>















































section \<open>Trace discipline\<close>

text \<open>
  \<open>grows P s s'\<close>: the trace of \<open>s'\<close> is the trace of \<open>s\<close> followed by events that all
  satisfy \<open>P\<close>; \<open>emits P p\<close>: every run of \<open>p\<close> grows the trace in that way.
\<close>

definition grows :: "(event \<Rightarrow> bool) \<Rightarrow> 'r state \<Rightarrow> 'r state \<Rightarrow> bool" where
  "grows P s s' = (\<exists>evs. trace s' = trace s @ evs \<and> list_all P evs)"

definition emits :: "(event \<Rightarrow> bool) \<Rightarrow> ('r, 'a) prog \<Rightarrow> bool" where
  "emits P p = (\<forall>s r s'. p s = (r, s') \<longrightarrow> grows P s s')"

text \<open>A removal event is allowed by a clear request when its entry is present and true.\<close>

definition clear_event_ok :: "(string \<times> bool) list \<Rightarrow> event \<Rightarrow> bool" where
  "clear_event_ok c ev =
     (case ev of
        EvRemoveIosDist r n dc \<Rightarrow> requested c ''distributionCert''
      | EvRemoveIosPush r n pk \<Rightarrow> requested c ''pushKey''
      | EvRemoveProvisioningProfile r n ac \<Rightarrow> requested c ''provisioningProfile''
      | EvDeletePushCert e b \<Rightarrow> requested c ''pushCert''
      | _ \<Rightarrow> False)"

text \<open>The place of a production step in the order of \<open>produceCredentials\<close>.\<close>

fun stage :: "event \<Rightarrow> nat" where
  "stage (EvEnsureAppExists a e b p) = 0"
| "stage (EvUseDistCertFromParams ac dc) = 1"
| "stage (EvSetupIosDist e b n) = 1"
| "stage (EvUsePushKeyFromParams ac pk) = 2"
| "stage (EvSetupIosPush e b n) = 2"
| "stage (EvUseProvisioningProfileFromParams ac t pp dc) = 3"
| "stage (EvSetupIosProvisioningProfile e b dc n) = 3"
| "stage ev = 4"

text \<open>
  The production steps among \<open>evs\<close> are in strictly increasing order of stage, with
  stages from \<open>lo\<close> up to but not including \<open>hi\<close>.
\<close>

definition stays_in :: "nat \<Rightarrow> nat \<Rightarrow> event list \<Rightarrow> bool" where
  "stays_in lo hi evs =
     (sorted_wrt (<) (map stage (filter is_production_event evs))
      \<and> list_all (\<lambda>n. lo \<le> n \<and> n < hi) (map stage (filter is_production_event evs)))"

text \<open>The registration call of \<open>produceCredentials\<close>, made exactly when a session exists.\<close>

definition registration_events :: "'r state \<Rightarrow> string \<Rightarrow> string \<Rightarrow> event list" where
  "registration_events s experienceName bundleId =
     (case appleCtx (world s) of
        Some actx \<Rightarrow> [EvEnsureAppExists actx experienceName bundleId True]
      | None \<Rightarrow> [])"

section \<open>Unfolding sets\<close>

lemmas prog_defs = returnM_def throwM_def bindM_def catchM_def finallyM_def emit_def call_def
  liftE_def

lemmas store_defs = getBundle_def getDistCert_def getPushKey_def getPushCert_def
  getProvisioningProfile_def getAppCredentials_def getAllCredentials_def putBundle_def
  deletePushCert_def emptyBundle_def storeDistCert_def storePushKey_def storeProfile_def

lemmas js_defs = truthy_def truthy_str_def template_str_def nonInteractive_of_def
  ErrorCodes_NON_INTERACTIVE_def

lemmas demo_defs = demo_env_def demo_options_def demo_builder_def demo_state_def
  demo_full_store_def demo_cert_def demo_key_def demo_pushCert_def demo_profile_def
  needsOperator_def RemoveIosDist_removeSpecific_def RemoveIosPush_removeSpecific_def
  RemoveProvisioningProfile_removeSpecific_def

lemmas builder_defs = prepareCredentials_def prepareCredentials_catch_def
  prepareCredentials_finally_def clearAndRevokeCredentialsIfRequested_def
  clearCredentials_def determineCredentialsToClear_def pickBy_def requested_def
  bestEffortAppleCtx_def getUsernameAsync_def produceCredentials_def setupDistCert_def
  setupPushCert_def setupProvisioningProfile_def insufficientCredentialsError_def
  missingBundleIdentifierError_def failedToPrepareMessage_def unableToProceedError_def Let_def

section \<open>How the trace grows\<close>

lemma grows_refl: "grows P s s"
  by (simp add: grows_def)

lemma grows_trans: "grows P s t \<Longrightarrow> grows P t u \<Longrightarrow> grows P s u"
  by (auto simp add: grows_def)

lemma grows_mono: "grows P s s' \<Longrightarrow> (\<And>ev. P ev \<Longrightarrow> Q ev) \<Longrightarrow> grows Q s s'"
  by (auto simp add: grows_def list_all_iff)

lemma grows_new_events:
  assumes "grows P s s'"
  shows "trace s' = trace s @ new_events s s'" and "list_all P (new_events s s')"
  using assms by (auto simp add: grows_def new_events_def)

lemma emitsD: "emits P p \<Longrightarrow> p s = (r, s') \<Longrightarrow> grows P s s'"
  by (simp add: emits_def)

lemma emits_mono: "emits P p \<Longrightarrow> (\<And>ev. P ev \<Longrightarrow> Q ev) \<Longrightarrow> emits Q p"
  unfolding emits_def by (blast intro: grows_mono)

lemma emits_returnM: "emits P (returnM x)"
  by (simp add: emits_def returnM_def grows_refl)

lemma emits_throwM: "emits P (throwM x)"
  by (simp add: emits_def throwM_def grows_refl)

lemma emits_liftE: "emits P (liftE x)"
  by (simp add: emits_def liftE_def grows_refl)

lemma emits_emit: "P ev \<Longrightarrow> emits P (emit ev)"
  by (simp add: emits_def emit_def grows_def)

lemma emits_call: "P ev \<Longrightarrow> emits P (call ev f)"
  by (auto simp add: emits_def call_def grows_def split: prod.splits)

lemma emits_bindM:
  assumes m: "emits P m" and f: "\<And>x. emits P (f x)"
  shows "emits P (bindM m f)"
  unfolding emits_def
proof (intro allI impI)
  fix s r s'
  assume run: "bindM m f s = (r, s')"
  obtain r1 s1 where ms: "m s = (r1, s1)" by (cases "m s")
  have g1: "grows P s s1" using m ms by (rule emitsD)
  show "grows P s s'"
  proof (cases r1)
    case (Inl e)
    with run ms have "s' = s1" by (simp add: bindM_def)
    with g1 show ?thesis by simp
  next
    case (Inr x)
    with run ms have "f x s1 = (r, s')" by (simp add: bindM_def)
    with f have "grows P s1 s'" by (rule emitsD)
    with g1 show ?thesis by (rule grows_trans)
  qed
qed

lemma emits_catchM:
  assumes m: "emits P m" and h: "\<And>e. emits P (h e)"
  shows "emits P (catchM m h)"
  unfolding emits_def
proof (intro allI impI)
  fix s r s'
  assume run: "catchM m h s = (r, s')"
  obtain r1 s1 where ms: "m s = (r1, s1)" by (cases "m s")
  have g1: "grows P s s1" using m ms by (rule emitsD)
  show "grows P s s'"
  proof (cases r1)
    case (Inr x)
    with run ms have "s' = s1" by (simp add: catchM_def)
    with g1 show ?thesis by simp
  next
    case (Inl e)
    with run ms have "h e s1 = (r, s')" by (simp add: catchM_def)
    with h have "grows P s1 s'" by (rule emitsD)
    with g1 show ?thesis by (rule grows_trans)
  qed
qed

lemma emits_finallyM:
  assumes m: "emits P m" and f: "emits P fin"
  shows "emits P (finallyM m fin)"
  unfolding emits_def
proof (intro allI impI)
  fix s r s'
  assume run: "finallyM m fin s = (r, s')"
  obtain r1 s1 where ms: "m s = (r1, s1)" by (cases "m s")
  obtain r2 s2 where fs: "fin s1 = (r2, s2)" by (cases "fin s1")
  have g1: "grows P s s1" using m ms by (rule emitsD)
  have g2: "grows P s1 s2" using f fs by (rule emitsD)
  from run ms fs have "s' = s2" by (cases r2) (simp_all add: finallyM_def)
  with g1 g2 show "grows P s s'" by (auto intro: grows_trans)
qed

lemma emits_if:
  "(c \<Longrightarrow> emits P p) \<Longrightarrow> (\<not> c \<Longrightarrow> emits P q) \<Longrightarrow> emits P (if c then p else q)"
  by simp

lemma emits_case_option:
  "emits P n \<Longrightarrow> (\<And>x. emits P (f x)) \<Longrightarrow> emits P (case v of None \<Rightarrow> n | Some x \<Rightarrow> f x)"
  by (cases v) simp_all

text \<open>The same rules for a step that first reads the state it runs in.\<close>

lemma emits_bindM_at:
  assumes m: "\<And>t. emits P (m t)" and f: "\<And>x. emits P (f x)"
  shows "emits P (\<lambda>s. bindM (m s) f s)"
proof -
  have "\<And>t. emits P (bindM (m t) f)" using m f by (rule emits_bindM)
  then show ?thesis by (simp add: emits_def)
qed

lemma emits_case_at:
  "emits P n \<Longrightarrow> (\<And>x. emits P (f x))
     \<Longrightarrow> emits P (\<lambda>s. case g s of None \<Rightarrow> n s | Some x \<Rightarrow> f x s)"
  by (simp add: emits_def split: option.splits)

lemma emits_if_at:
  "(c \<Longrightarrow> emits P p) \<Longrightarrow> (\<not> c \<Longrightarrow> emits P q) \<Longrightarrow> emits P (\<lambda>s. if c then p s else q s)"
  by (simp add: emits_def)

lemmas emits_rules = emits_returnM emits_throwM emits_liftE emits_emit emits_call emits_bindM
  emits_catchM emits_finallyM emits_if emits_case_option

lemma setupDistCert_emits:
  "emits (\<lambda>ev. is_dist_step ev \<or> ev = EvLogError ''Failed to set up Distribution Certificate'')
     (setupDistCert env this en b ac)"
  unfolding setupDistCert_def by (intro emits_rules) simp_all

lemma setupPushCert_emits:
  "emits (\<lambda>ev. is_push_step ev \<or> ev = EvLogError ''Failed to set up Push Key'')
     (setupPushCert env this en b ac)"
  unfolding setupPushCert_def by (intro emits_rules) simp_all

lemma setupProvisioningProfile_emits:
  "emits (\<lambda>ev. (is_profile_step ev \<and> profile_step_cert ev = Some dc)
       \<or> ev = EvLogError ''Failed to set up Provisioning Profile'')
     (setupProvisioningProfile env this en b ac dc)"
  unfolding setupProvisioningProfile_def by (intro emits_rules) simp_all

lemma clearCredentials_emits:
  "emits (clear_event_ok c) (clearCredentials env this en b c)"
  unfolding clearCredentials_def Let_def
  apply (rule emits_bindM_at)
   apply (intro emits_rules; simp add: clear_event_ok_def)
  apply (rule emits_bindM_at)
   apply (intro emits_rules; simp add: clear_event_ok_def)
  apply (rule emits_bindM_at)
   apply (intro emits_rules; simp add: clear_event_ok_def)
  apply (rule emits_case_at)
   apply (rule emits_returnM)
  apply (rule emits_if_at)
   apply (intro emits_rules; simp add: clear_event_ok_def)
  apply (rule emits_returnM)
  done

lemma clearAndRevokeCredentialsIfRequested_emits:
  "emits (clear_event_ok (determineCredentialsToClear this))
     (clearAndRevokeCredentialsIfRequested env this en b)"
  unfolding clearAndRevokeCredentialsIfRequested_def Let_def
  by (intro emits_if clearCredentials_emits emits_returnM)

lemma bestEffortAppleCtx_emits:
  "emits (\<lambda>ev. is_auth_event ev \<or> ev = EvLog noProblemMessage) (bestEffortAppleCtx env this)"
  (is "emits ?P _")
  unfolding emits_def
proof (intro allI impI)
  fix s r s'
  assume run: "bestEffortAppleCtx env this s = (r, s')"
  have "emits ?P
     (if appleCtx (world s) \<noteq> None then returnM ()
      else if truthy_str (opt_appleId (this_options this))
      then call (EvEnsureAppleCtx (this_options this))
             (ensureAppleCtx env (this_options this))
      else if nonInteractive_of (this_options this) then returnM ()
      else bindM (call (EvPrompt authPromptMessage) (prompt_confirm env authPromptMessage))
             (\<lambda>confirm.
                if confirm
                then call (EvEnsureAppleCtx (this_options this))
                       (ensureAppleCtx env (this_options this))
                else emit (EvLog noProblemMessage)))"
    by (intro emits_rules; simp)
  from emitsD[OF this, of s r s'] run show "grows ?P s s'"
    by (simp add: bestEffortAppleCtx_def split: if_splits)
qed

lemma produceCredentials_emits:
  "emits (\<lambda>ev. is_production_event ev \<or> (\<exists>m. ev = EvLogError m))
     (produceCredentials env this en b)"
  (is "emits ?P _")
  unfolding emits_def
proof (intro allI impI)
  fix s r s'
  assume run: "produceCredentials env this en b s = (r, s')"
  have d: "emits ?P (setupDistCert env this en b ac)" for ac
    by (rule emits_mono[OF setupDistCert_emits]) (auto simp: is_production_event_def)
  have p: "emits ?P (setupPushCert env this en b ac)" for ac
    by (rule emits_mono[OF setupPushCert_emits]) (auto simp: is_production_event_def)
  have pp: "emits ?P (setupProvisioningProfile env this en b ac dc)" for ac dc
    by (rule emits_mono[OF setupProvisioningProfile_emits]) (auto simp: is_production_event_def)
  have "emits ?P (bindM
           (case appleCtx (world s) of
              Some actx \<Rightarrow>
                call (EvEnsureAppExists actx en b True)
                  (ensureAppExists env actx en b True)
            | None \<Rightarrow> returnM ())
           (\<lambda>u. bindM (setupDistCert env this en b (getAppCredentials (world s) en b))
              (\<lambda>u s1.
                 case getDistCert (world s1) en b of
                   None \<Rightarrow> throwM insufficientCredentialsError s1
                 | Some distCert \<Rightarrow>
                     bindM (setupPushCert env this en b (getAppCredentials (world s) en b))
                       (\<lambda>u. setupProvisioningProfile env this en b
                               (getAppCredentials (world s) en b) distCert) s1)))"
    apply (rule emits_bindM)
     apply (intro emits_rules; simp add: is_production_event_def)
    apply (rule emits_bindM)
     apply (rule d)
    apply (rule emits_case_at)
     apply (rule emits_throwM)
    apply (rule emits_bindM)
     apply (rule p)
    apply (rule pp)
    done
  from emitsD[OF this, of s r s'] run show "grows ?P s s'"
    by (simp add: produceCredentials_def Let_def)
qed

section \<open>The claims\<close>

subsection \<open>C9: a manifest without a bundle identifier\<close>

lemma getUsernameAsync_emits:
  "emits (\<lambda>ev. ev = EvGetUserAsync) (getUsernameAsync env this)"
  unfolding getUsernameAsync_def by (intro emits_rules) simp_all


lemma prepareCredentials_no_bundleIdentifier:
  assumes "\<not> truthy_str (case ios (this_manifest this) of None \<Rightarrow> None
                                | Some i \<Rightarrow> bundleIdentifier i)"
  shows "prepareCredentials env this s
     = (case getUsernameAsync env this s of
          (Inl e, sl) \<Rightarrow> (Inl e, sl)
        | (Inr uname, sl) \<Rightarrow> (Inl missingBundleIdentifierError, sl))"
  using assms
  by (simp add: prepareCredentials_def bindM_def Let_def throwM_def truthy_str_def
      split: option.splits prod.splits sum.splits)



subsection \<open>C8: the best-effort authentication gate\<close>

text \<open>
  C8. \<open>bestEffortAppleCtx\<close>: with an authenticated context it returns at once, the
  state untouched (no prompt); otherwise, with an \<open>appleId\<close> among the options it calls
  the authentication and nothing else (no prompt), with the authentication's outcome;
  otherwise, in non-interactive mode it returns with the state untouched (no prompt, no
  authentication); otherwise it prompts the operator, and on a negative answer it does not
  authenticate and still returns successfully.
\<close>

theorem bestEffortAppleCtx_gate:
  "(appleCtx (world s) \<noteq> None \<longrightarrow> bestEffortAppleCtx env this s = (Inr (), s))
   \<and> (appleCtx (world s) = None \<and> truthy_str (opt_appleId (this_options this))
        \<and> ensureAppleCtx env (this_options this) (world s) = (r, w')
      \<longrightarrow> bestEffortAppleCtx env this s
            = (r, \<lparr>world = w', trace = trace s @ [EvEnsureAppleCtx (this_options this)]\<rparr>))
   \<and> (appleCtx (world s) = None \<and> \<not> truthy_str (opt_appleId (this_options this))
        \<and> nonInteractive_of (this_options this)
      \<longrightarrow> bestEffortAppleCtx env this s = (Inr (), s))
   \<and> (appleCtx (world s) = None \<and> \<not> truthy_str (opt_appleId (this_options this))
        \<and> \<not> nonInteractive_of (this_options this)
        \<and> prompt_confirm env authPromptMessage (world s) = (Inr False, w')
      \<longrightarrow> bestEffortAppleCtx env this s
            = (Inr (), \<lparr>world = w',
                 trace = trace s @ [EvPrompt authPromptMessage, EvLog noProblemMessage]\<rparr>))"
  by (simp add: bestEffortAppleCtx_def prog_defs)

text \<open>
  One run for each of the four cases: a session already there; an \<open>appleId\<close> given;
  non-interactive mode; the operator answering no.
\<close>

theorem bestEffortAppleCtx_gate_witness:
  "bestEffortAppleCtx demo_env (demo_builder demo_options)
      \<lparr>world = \<lparr>appleCtx = Some (AppleCtx ''session''), store = [], remote = []\<rparr>, trace = []\<rparr>
     = (Inr (), \<lparr>world = \<lparr>appleCtx = Some (AppleCtx ''session''), store = [], remote = []\<rparr>,
                  trace = []\<rparr>)
   \<and> bestEffortAppleCtx demo_env (demo_builder (demo_options\<lparr>opt_appleId := Some ''dev@acme.com''\<rparr>))
        (demo_state [])
     = (Inr (), \<lparr>world = \<lparr>appleCtx = Some (AppleCtx ''dev@acme.com''), store = [], remote = []\<rparr>,
          trace = [EvEnsureAppleCtx (demo_options\<lparr>opt_appleId := Some ''dev@acme.com''\<rparr>)]\<rparr>)
   \<and> bestEffortAppleCtx demo_env
        (demo_builder (demo_options\<lparr>opt_parent := Some \<lparr>nonInteractive = Some True\<rparr>\<rparr>))
        (demo_state [])
     = (Inr (), demo_state [])
   \<and> bestEffortAppleCtx demo_env (demo_builder demo_options) (demo_state [])
     = (Inr (), \<lparr>world = \<lparr>appleCtx = None, store = [], remote = []\<rparr>,
          trace = [EvPrompt authPromptMessage, EvLog noProblemMessage]\<rparr>)"
  using
    bestEffortAppleCtx_gate[where env = demo_env and this = "demo_builder demo_options"
      and s = "\<lparr>world = \<lparr>appleCtx = Some (AppleCtx ''session''), store = [], remote = []\<rparr>,
                trace = []\<rparr>"]
    bestEffortAppleCtx_gate[where env = demo_env and s = "demo_state []"
      and this = "demo_builder (demo_options\<lparr>opt_appleId := Some ''dev@acme.com''\<rparr>)"
      and r = "Inr ()"
      and w' = "\<lparr>appleCtx = Some (AppleCtx ''dev@acme.com''), store = [], remote = []\<rparr>"]
    bestEffortAppleCtx_gate[where env = demo_env and s = "demo_state []"
      and this = "demo_builder (demo_options\<lparr>opt_parent := Some \<lparr>nonInteractive = Some True\<rparr>\<rparr>)"]
    bestEffortAppleCtx_gate[where env = demo_env and s = "demo_state []"
      and this = "demo_builder demo_options"
      and w' = "\<lparr>appleCtx = None, store = [], remote = []\<rparr>"]
  by (simp add: demo_defs js_defs)

subsection \<open>C5: the compacted clear request\<close>

lemma determineCredentialsToClear_lookup:
  "map_of (determineCredentialsToClear this) ''distributionCert''
     = (if truthy (opt_clearCredentials (this_options this))
           \<or> truthy (opt_clearDistCert (this_options this)) then Some True else None)"
  "map_of (determineCredentialsToClear this) ''pushKey''
     = (if truthy (opt_clearCredentials (this_options this))
           \<or> truthy (opt_clearPushKey (this_options this)) then Some True else None)"
  "map_of (determineCredentialsToClear this) ''pushCert''
     = (if truthy (opt_clearCredentials (this_options this))
           \<or> truthy (opt_clearPushCert (this_options this)) then Some True else None)"
  "map_of (determineCredentialsToClear this) ''provisioningProfile''
     = (if truthy (opt_clearCredentials (this_options this))
           \<or> truthy (opt_clearProvisioningProfile (this_options this)) then Some True else None)"
  by (simp_all add: determineCredentialsToClear_def pickBy_def Let_def)

lemma determineCredentialsToClear_all_true: "list_all snd (determineCredentialsToClear this)"
  by (simp add: determineCredentialsToClear_def pickBy_def Let_def list_all_iff)

lemma clearCredentials_new_events:
  assumes "clearCredentials env this en b c s = (r, s')"
  shows "list_all (clear_event_ok c) (new_events s s')"
  using emitsD[OF clearCredentials_emits assms] by (rule grows_new_events)

text \<open>
  C5. \<open>determineCredentialsToClear\<close>: the global \<open>clearCredentials\<close> flag gives all
  four entries; every entry of the result is true (never an explicit false entry); an
  entry is there exactly when its own flag or the global flag is set, so a flag that is
  false or absent gives no entry; and \<open>clearCredentials\<close>, run on any request, calls a
  removal only for an entry that is present and true.
\<close>

theorem determineCredentialsToClear_compacted:
  "(truthy (opt_clearCredentials (this_options this)) \<longrightarrow>
      determineCredentialsToClear this
        = [(''distributionCert'', True), (''pushKey'', True), (''pushCert'', True),
           (''provisioningProfile'', True)])
   \<and> list_all snd (determineCredentialsToClear this)
   \<and> map_of (determineCredentialsToClear this) ''distributionCert''
       = (if truthy (opt_clearCredentials (this_options this))
             \<or> truthy (opt_clearDistCert (this_options this)) then Some True else None)
   \<and> map_of (determineCredentialsToClear this) ''pushKey''
       = (if truthy (opt_clearCredentials (this_options this))
             \<or> truthy (opt_clearPushKey (this_options this)) then Some True else None)
   \<and> map_of (determineCredentialsToClear this) ''pushCert''
       = (if truthy (opt_clearCredentials (this_options this))
             \<or> truthy (opt_clearPushCert (this_options this)) then Some True else None)
   \<and> map_of (determineCredentialsToClear this) ''provisioningProfile''
       = (if truthy (opt_clearCredentials (this_options this))
             \<or> truthy (opt_clearProvisioningProfile (this_options this))
          then Some True else None)
   \<and> (clearCredentials env this en b c s = (r, s') \<longrightarrow>
        list_all (clear_event_ok c) (new_events s s'))"
proof -
  have "truthy (opt_clearCredentials (this_options this)) \<longrightarrow>
      determineCredentialsToClear this
        = [(''distributionCert'', True), (''pushKey'', True), (''pushCert'', True),
           (''provisioningProfile'', True)]"
    by (simp add: determineCredentialsToClear_def pickBy_def Let_def)
  moreover note determineCredentialsToClear_all_true[of this]
    determineCredentialsToClear_lookup[of this]
  moreover have "clearCredentials env this en b c s = (r, s') \<longrightarrow>
        list_all (clear_event_ok c) (new_events s s')"
    by (blast intro: clearCredentials_new_events)
  ultimately show ?thesis by (intro conjI)
qed

text \<open>
  The flags \<open>{clearDistCert: true, clearPushKey: false}\<close> on a store that holds all four
  artifacts: the request is the single entry \<open>distributionCert\<close>, the only call is the
  removal of the distribution certificate and the push key is still in the store; and the
  global flag alone gives the four entries.
\<close>

theorem determineCredentialsToClear_compacted_witness:
  "determineCredentialsToClear
      (demo_builder (demo_options\<lparr>opt_clearDistCert := Some True, opt_clearPushKey := Some False\<rparr>))
     = [(''distributionCert'', True)]
   \<and> determineCredentialsToClear (demo_builder (demo_options\<lparr>opt_clearCredentials := Some True\<rparr>))
     = [(''distributionCert'', True), (''pushKey'', True), (''pushCert'', True),
        (''provisioningProfile'', True)]
   \<and> list_all (clear_event_ok [(''distributionCert'', True)])
       (new_events (demo_state demo_full_store)
          (snd (clearCredentials demo_env
             (demo_builder (demo_options\<lparr>opt_clearDistCert := Some True, opt_clearPushKey := Some False\<rparr>))
             ''@acme/app'' ''com.acme.app'' [(''distributionCert'', True)]
             (demo_state demo_full_store))))
   \<and> new_events (demo_state demo_full_store)
          (snd (clearCredentials demo_env
             (demo_builder (demo_options\<lparr>opt_clearDistCert := Some True, opt_clearPushKey := Some False\<rparr>))
             ''@acme/app'' ''com.acme.app'' [(''distributionCert'', True)]
             (demo_state demo_full_store)))
       = [EvRemoveIosDist False False demo_cert]
   \<and> getPushKey (world (snd (clearCredentials demo_env
             (demo_builder (demo_options\<lparr>opt_clearDistCert := Some True, opt_clearPushKey := Some False\<rparr>))
             ''@acme/app'' ''com.acme.app'' [(''distributionCert'', True)]
             (demo_state demo_full_store)))) ''@acme/app'' ''com.acme.app''
       = Some demo_key"
proof -
  let ?bld = "demo_builder (demo_options\<lparr>opt_clearDistCert := Some True, opt_clearPushKey := Some False\<rparr>)"
  let ?all = "demo_builder (demo_options\<lparr>opt_clearCredentials := Some True\<rparr>)"
  let ?s = "demo_state demo_full_store"
  let ?run = "clearCredentials demo_env ?bld ''@acme/app'' ''com.acme.app'' [(''distributionCert'', True)] ?s"
  have h: "truthy (opt_clearCredentials (this_options ?all))"
    by (simp add: demo_defs truthy_def)
  have run: "?run = (fst ?run, snd ?run)" by simp
  have c: "determineCredentialsToClear ?bld = [(''distributionCert'', True)]"
    by (simp add: determineCredentialsToClear_def pickBy_def Let_def demo_defs truthy_def)
  note t1 = determineCredentialsToClear_compacted[where this = ?all]
  note t2 = determineCredentialsToClear_compacted[where this = ?bld and env = demo_env
      and en = "''@acme/app''" and b = "''com.acme.app''" and c = "[(''distributionCert'', True)]"
      and s = ?s and r = "fst ?run" and s' = "snd ?run"]
  from t1 h have a: "determineCredentialsToClear ?all
     = [(''distributionCert'', True), (''pushKey'', True), (''pushCert'', True),
        (''provisioningProfile'', True)]" by blast
  from t2 run have e: "list_all (clear_event_ok [(''distributionCert'', True)]) (new_events ?s (snd ?run))"
    by blast
  have ev: "new_events ?s (snd ?run) = [EvRemoveIosDist False False demo_cert]"
    by (simp add: new_events_def clearCredentials_def requested_def prog_defs store_defs js_defs demo_defs Let_def)
  have pk: "getPushKey (world (snd ?run)) ''@acme/app'' ''com.acme.app'' = Some demo_key"
    by (simp add: clearCredentials_def requested_def prog_defs store_defs js_defs demo_defs Let_def)
  from c a e ev pk show ?thesis by (intro conjI)
qed

subsection \<open>C6: the clear phase\<close>

text \<open>What the removal views of the spec do to the bundle of a key.\<close>

lemma map_of_map_snd:
  "map_of (map (\<lambda>kb. (fst kb, f (fst kb) (snd kb))) st) k = map_option (f k) (map_of st k)"
  by (induction st) auto

lemma getBundle_RemoveIosDist:
  "getBundle (snd (RemoveIosDist_removeSpecific rv ni dc w)) e b
     = (if distributionCert (getBundle w e b) = Some dc
        then (getBundle w e b)\<lparr>distributionCert := None\<rparr> else getBundle w e b)"
  using map_of_map_snd[where f = "\<lambda>k v. if distributionCert v = Some dc
      then v\<lparr>distributionCert := None\<rparr> else v" and st = "store w" and k = "(e, b)"]
  by (simp add: RemoveIosDist_removeSpecific_def getBundle_def emptyBundle_def
      split: option.splits)

lemma getBundle_RemoveIosPush:
  "getBundle (snd (RemoveIosPush_removeSpecific rv ni pk w)) e b
     = (if pushKey (getBundle w e b) = Some pk
        then (getBundle w e b)\<lparr>pushKey := None\<rparr> else getBundle w e b)"
  using map_of_map_snd[where f = "\<lambda>k v. if pushKey v = Some pk
      then v\<lparr>pushKey := None\<rparr> else v" and st = "store w" and k = "(e, b)"]
  by (simp add: RemoveIosPush_removeSpecific_def getBundle_def emptyBundle_def
      split: option.splits)

lemma getBundle_RemoveProvisioningProfile:
  "getBundle (snd (RemoveProvisioningProfile_removeSpecific rv ni ac w)) e b
     = (if (e, b) = (ac_experienceName ac, ac_bundleIdentifier ac)
        then (getBundle w e b)\<lparr>provisioningProfile := None\<rparr> else getBundle w e b)"
  using map_of_map_snd[where f = "\<lambda>k v. if k = (ac_experienceName ac, ac_bundleIdentifier ac)
      then v\<lparr>provisioningProfile := None\<rparr> else v" and st = "store w" and k = "(e, b)"]
  by (auto simp add: RemoveProvisioningProfile_removeSpecific_def getBundle_def emptyBundle_def
      split: option.splits)

lemma map_of_putBundle_same: "map_of (putBundle e b v st) (e, b) = Some v"
proof (cases "map_of st (e, b)")
  case None
  then show ?thesis by (simp add: putBundle_def map_add_def)
next
  case (Some old)
  have "map_of (map (\<lambda>kb. (fst kb, (\<lambda>k old. if k = (e, b) then v else old) (fst kb) (snd kb))) st) (e, b)
      = map_option (\<lambda>old. if (e, b) = (e, b) then v else old) (map_of st (e, b))"
    by (rule map_of_map_snd)
  with Some show ?thesis by (simp add: putBundle_def case_prod_unfold)
qed

lemma getBundle_deletePushCert:
  "getBundle (snd (deletePushCert e b w)) e b = (getBundle w e b)\<lparr>pushCert := None\<rparr>"
  by (simp add: deletePushCert_def getBundle_def map_of_putBundle_same)


lemma call_alt:
  "call ev f s = (fst (f (world s)), \<lparr>world = snd (f (world s)), trace = trace s @ [ev]\<rparr>)"
  by (simp add: call_def split: prod.splits)

lemma spec_removers_ok:
  "fst (RemoveIosDist_removeSpecific rv ni dc w) = Inr ()"
  "fst (RemoveIosPush_removeSpecific rv ni pk w) = Inr ()"
  "fst (RemoveProvisioningProfile_removeSpecific rv ni ac w) = Inr ()"
  "fst (deletePushCert e b w) = Inr ()"
  by (simp_all add: RemoveIosDist_removeSpecific_def RemoveIosPush_removeSpecific_def
      RemoveProvisioningProfile_removeSpecific_def deletePushCert_def)

lemma with_spec_removers_sel:
  "removeIosDist (with_spec_removers env) = RemoveIosDist_removeSpecific"
  "removeIosPush (with_spec_removers env) = RemoveIosPush_removeSpecific"
  "removeProvisioningProfile (with_spec_removers env) = RemoveProvisioningProfile_removeSpecific"
  by (simp_all add: with_spec_removers_def)

lemma clear_step_dist:
  fixes s :: "string list state"
  shows "\<exists>s1.
     (case getDistCert (world s) en b of
        Some dc \<Rightarrow>
          if rq then call (EvRemoveIosDist rv ni dc) (RemoveIosDist_removeSpecific rv ni dc)
          else returnM ()
      | None \<Rightarrow> returnM ()) s = (Inr (), s1)
     \<and> getBundle (world s1) en b
         = (getBundle (world s) en b)
             \<lparr>distributionCert := if rq then None else distributionCert (getBundle (world s) en b)\<rparr>
     \<and> trace s1 = trace s @
         (case distributionCert (getBundle (world s) en b) of
            Some dc \<Rightarrow> if rq then [EvRemoveIosDist rv ni dc] else []
          | None \<Rightarrow> [])"
  by (cases "distributionCert (getBundle (world s) en b)"; cases rq)
     (simp_all add: getDistCert_def returnM_def call_alt spec_removers_ok getBundle_RemoveIosDist)

lemma clear_step_push:
  fixes s :: "string list state"
  shows "\<exists>s1.
     (case getPushKey (world s) en b of
        Some pk \<Rightarrow>
          if rq then call (EvRemoveIosPush rv ni pk) (RemoveIosPush_removeSpecific rv ni pk)
          else returnM ()
      | None \<Rightarrow> returnM ()) s = (Inr (), s1)
     \<and> getBundle (world s1) en b
         = (getBundle (world s) en b)
             \<lparr>pushKey := if rq then None else pushKey (getBundle (world s) en b)\<rparr>
     \<and> trace s1 = trace s @
         (case pushKey (getBundle (world s) en b) of
            Some pk \<Rightarrow> if rq then [EvRemoveIosPush rv ni pk] else []
          | None \<Rightarrow> [])"
  by (cases "pushKey (getBundle (world s) en b)"; cases rq)
     (simp_all add: getPushKey_def returnM_def call_alt spec_removers_ok getBundle_RemoveIosPush)

lemma clear_step_profile:
  fixes s :: "string list state"
  shows "\<exists>s1.
     (case getProvisioningProfile (world s) en b of
        Some pp \<Rightarrow>
          if rq then call (EvRemoveProvisioningProfile rv ni (getAppCredentials (world s) en b))
                   (RemoveProvisioningProfile_removeSpecific rv ni
                      (getAppCredentials (world s) en b))
          else returnM ()
      | None \<Rightarrow> returnM ()) s = (Inr (), s1)
     \<and> getBundle (world s1) en b
         = (getBundle (world s) en b)
             \<lparr>provisioningProfile :=
                if rq then None else provisioningProfile (getBundle (world s) en b)\<rparr>
     \<and> trace s1 = trace s @
         (case provisioningProfile (getBundle (world s) en b) of
            Some pp \<Rightarrow>
              if rq then [EvRemoveProvisioningProfile rv ni (getAppCredentials (world s) en b)]
              else []
          | None \<Rightarrow> [])"
  by (cases "provisioningProfile (getBundle (world s) en b)"; cases rq)
     (simp_all add: getProvisioningProfile_def returnM_def call_alt spec_removers_ok
        getBundle_RemoveProvisioningProfile getAppCredentials_def)

lemma clear_step_pushCert:
  fixes s :: "string list state"
  shows "\<exists>s1.
     (case getPushCert (world s) en b of
        Some pc \<Rightarrow>
          if rq then call (EvDeletePushCert en b) (deletePushCert en b) s
          else returnM () s
      | None \<Rightarrow> returnM () s) = (Inr (), s1)
     \<and> getBundle (world s1) en b
         = (getBundle (world s) en b)
             \<lparr>pushCert := if rq then None else pushCert (getBundle (world s) en b)\<rparr>
     \<and> trace s1 = trace s @
         (case pushCert (getBundle (world s) en b) of
            Some pc \<Rightarrow> if rq then [EvDeletePushCert en b] else []
          | None \<Rightarrow> [])"
  by (cases "pushCert (getBundle (world s) en b)"; cases rq)
     (simp_all add: getPushCert_def returnM_def call_alt spec_removers_ok
        getBundle_deletePushCert)

lemma bindM_ok: "m s = (Inr x, s1) \<Longrightarrow> bindM m f s = f x s1"
  by (simp add: bindM_def)

lemma clearCredentials_spec_removers:
  fixes s :: "string list state"
  assumes run: "clearCredentials (with_spec_removers env) this en b c s = (r, s')"
  shows "r = Inr ()
    \<and> getBundle (world s') en b
        = \<lparr>distributionCert =
             (if requested c ''distributionCert'' then None
              else distributionCert (getBundle (world s) en b)),
           pushKey =
             (if requested c ''pushKey'' then None else pushKey (getBundle (world s) en b)),
           pushCert =
             (if requested c ''pushCert'' then None else pushCert (getBundle (world s) en b)),
           provisioningProfile =
             (if requested c ''provisioningProfile'' then None
              else provisioningProfile (getBundle (world s) en b))\<rparr>
    \<and> new_events s s'
        = (case distributionCert (getBundle (world s) en b) of
             Some dc \<Rightarrow>
               if requested c ''distributionCert''
               then [EvRemoveIosDist (truthy (opt_revokeCredentials (this_options this)))
                       (nonInteractive_of (this_options this)) dc]
               else []
           | None \<Rightarrow> [])
          @ (case pushKey (getBundle (world s) en b) of
               Some pk \<Rightarrow>
                 if requested c ''pushKey''
                 then [EvRemoveIosPush (truthy (opt_revokeCredentials (this_options this)))
                         (nonInteractive_of (this_options this)) pk]
                 else []
             | None \<Rightarrow> [])
          @ (case provisioningProfile (getBundle (world s) en b) of
               Some pp \<Rightarrow>
                 if requested c ''provisioningProfile''
                 then [EvRemoveProvisioningProfile
                         (truthy (opt_revokeCredentials (this_options this)))
                         (nonInteractive_of (this_options this))
                         \<lparr>ac_experienceName = en, ac_bundleIdentifier = b,
                          ac_credentials = (getBundle (world s) en b)
                            \<lparr>distributionCert :=
                               if requested c ''distributionCert'' then None
                               else distributionCert (getBundle (world s) en b),
                             pushKey :=
                               if requested c ''pushKey'' then None
                               else pushKey (getBundle (world s) en b)\<rparr>\<rparr>]
                 else []
             | None \<Rightarrow> [])
          @ (case pushCert (getBundle (world s) en b) of
               Some pc \<Rightarrow> if requested c ''pushCert'' then [EvDeletePushCert en b] else []
             | None \<Rightarrow> [])"
proof -
  let ?rv = "truthy (opt_revokeCredentials (this_options this))"
  let ?ni = "nonInteractive_of (this_options this)"
  obtain s1 where st1:
    "(case getDistCert (world s) en b of
        Some dc \<Rightarrow>
          if requested c ''distributionCert''
          then call (EvRemoveIosDist ?rv ?ni dc) (RemoveIosDist_removeSpecific ?rv ?ni dc)
          else returnM ()
      | None \<Rightarrow> returnM ()) s = (Inr (), s1)"
    and b1: "getBundle (world s1) en b
         = (getBundle (world s) en b)
             \<lparr>distributionCert := if requested c ''distributionCert'' then None
                else distributionCert (getBundle (world s) en b)\<rparr>"
    and t1: "trace s1 = trace s @
         (case distributionCert (getBundle (world s) en b) of
            Some dc \<Rightarrow> if requested c ''distributionCert'' then [EvRemoveIosDist ?rv ?ni dc] else []
          | None \<Rightarrow> [])"
    using clear_step_dist[where s = s and en = en and b = b and rq = "requested c ''distributionCert''" and rv = ?rv and ni = ?ni] by blast
  obtain s2 where st2:
    "(case getPushKey (world s1) en b of
        Some pk \<Rightarrow>
          if requested c ''pushKey''
          then call (EvRemoveIosPush ?rv ?ni pk) (RemoveIosPush_removeSpecific ?rv ?ni pk)
          else returnM ()
      | None \<Rightarrow> returnM ()) s1 = (Inr (), s2)"
    and b2: "getBundle (world s2) en b
         = (getBundle (world s1) en b)
             \<lparr>pushKey := if requested c ''pushKey'' then None
                else pushKey (getBundle (world s1) en b)\<rparr>"
    and t2: "trace s2 = trace s1 @
         (case pushKey (getBundle (world s1) en b) of
            Some pk \<Rightarrow> if requested c ''pushKey'' then [EvRemoveIosPush ?rv ?ni pk] else []
          | None \<Rightarrow> [])"
    using clear_step_push[where s = s1 and en = en and b = b and rq = "requested c ''pushKey''" and rv = ?rv and ni = ?ni] by blast
  obtain s3 where st3:
    "(case getProvisioningProfile (world s2) en b of
        Some pp \<Rightarrow>
          if requested c ''provisioningProfile''
          then call (EvRemoveProvisioningProfile ?rv ?ni (getAppCredentials (world s2) en b))
                 (RemoveProvisioningProfile_removeSpecific ?rv ?ni
                    (getAppCredentials (world s2) en b))
          else returnM ()
      | None \<Rightarrow> returnM ()) s2 = (Inr (), s3)"
    and b3: "getBundle (world s3) en b
         = (getBundle (world s2) en b)
             \<lparr>provisioningProfile := if requested c ''provisioningProfile'' then None
                else provisioningProfile (getBundle (world s2) en b)\<rparr>"
    and t3: "trace s3 = trace s2 @
         (case provisioningProfile (getBundle (world s2) en b) of
            Some pp \<Rightarrow>
              if requested c ''provisioningProfile''
              then [EvRemoveProvisioningProfile ?rv ?ni (getAppCredentials (world s2) en b)]
              else []
          | None \<Rightarrow> [])"
    using clear_step_profile[where s = s2 and en = en and b = b and rq = "requested c ''provisioningProfile''" and rv = ?rv and ni = ?ni] by blast
  obtain s4 where st4:
    "(case getPushCert (world s3) en b of
        Some pc \<Rightarrow>
          if requested c ''pushCert''
          then call (EvDeletePushCert en b) (deletePushCert en b) s3
          else returnM () s3
      | None \<Rightarrow> returnM () s3) = (Inr (), s4)"
    and b4: "getBundle (world s4) en b
         = (getBundle (world s3) en b)
             \<lparr>pushCert := if requested c ''pushCert'' then None
                else pushCert (getBundle (world s3) en b)\<rparr>"
    and t4: "trace s4 = trace s3 @
         (case pushCert (getBundle (world s3) en b) of
            Some pc \<Rightarrow> if requested c ''pushCert'' then [EvDeletePushCert en b] else []
          | None \<Rightarrow> [])"
    using clear_step_pushCert[where s = s3 and en = en and b = b and rq = "requested c ''pushCert''"] by blast
  have k1: "bindM
      (case getDistCert (world s) en b of
        Some dc \<Rightarrow>
          if requested c ''distributionCert''
          then call (EvRemoveIosDist ?rv ?ni dc) (RemoveIosDist_removeSpecific ?rv ?ni dc)
          else returnM ()
      | None \<Rightarrow> returnM ()) f s = f () s1" for f :: "unit \<Rightarrow> (string list, unit) prog"
    using st1 by (simp add: bindM_def)
  have k2: "bindM
      (case getPushKey (world s1) en b of
        Some pk \<Rightarrow>
          if requested c ''pushKey''
          then call (EvRemoveIosPush ?rv ?ni pk) (RemoveIosPush_removeSpecific ?rv ?ni pk)
          else returnM ()
      | None \<Rightarrow> returnM ()) f s1 = f () s2" for f :: "unit \<Rightarrow> (string list, unit) prog"
    using st2 by (simp add: bindM_def)
  have k3: "bindM
      (case getProvisioningProfile (world s2) en b of
        Some pp \<Rightarrow>
          if requested c ''provisioningProfile''
          then call (EvRemoveProvisioningProfile ?rv ?ni (getAppCredentials (world s2) en b))
                 (RemoveProvisioningProfile_removeSpecific ?rv ?ni
                    (getAppCredentials (world s2) en b))
          else returnM ()
      | None \<Rightarrow> returnM ()) f s2 = f () s3" for f :: "unit \<Rightarrow> (string list, unit) prog"
    using st3 by (simp add: bindM_def)
  have "clearCredentials (with_spec_removers env) this en b c s = (Inr (), s4)"
    unfolding clearCredentials_def Let_def with_spec_removers_sel
    by (simp only: k1 k2 k3 st4)
  with run have r: "r = Inr ()" and fin: "s' = s4" by simp_all
  have bd: "getBundle (world s4) en b
        = \<lparr>distributionCert =
             (if requested c ''distributionCert'' then None
              else distributionCert (getBundle (world s) en b)),
           pushKey =
             (if requested c ''pushKey'' then None else pushKey (getBundle (world s) en b)),
           pushCert =
             (if requested c ''pushCert'' then None else pushCert (getBundle (world s) en b)),
           provisioningProfile =
             (if requested c ''provisioningProfile'' then None
              else provisioningProfile (getBundle (world s) en b))\<rparr>"
    by (simp add: b4 b3 b2 b1)
  have ac: "getAppCredentials (world s2) en b
      = \<lparr>ac_experienceName = en, ac_bundleIdentifier = b,
         ac_credentials = (getBundle (world s) en b)
           \<lparr>distributionCert :=
              if requested c ''distributionCert'' then None
              else distributionCert (getBundle (world s) en b),
            pushKey :=
              if requested c ''pushKey'' then None
              else pushKey (getBundle (world s) en b)\<rparr>\<rparr>"
    by (simp add: getAppCredentials_def b2 b1)
  have "trace s4 = trace s @
          (case distributionCert (getBundle (world s) en b) of
             Some dc \<Rightarrow>
               if requested c ''distributionCert'' then [EvRemoveIosDist ?rv ?ni dc] else []
           | None \<Rightarrow> [])
          @ (case pushKey (getBundle (world s) en b) of
               Some pk \<Rightarrow> if requested c ''pushKey'' then [EvRemoveIosPush ?rv ?ni pk] else []
             | None \<Rightarrow> [])
          @ (case provisioningProfile (getBundle (world s) en b) of
               Some pp \<Rightarrow>
                 if requested c ''provisioningProfile''
                 then [EvRemoveProvisioningProfile ?rv ?ni (getAppCredentials (world s2) en b)]
                 else []
             | None \<Rightarrow> [])
          @ (case pushCert (getBundle (world s) en b) of
               Some pc \<Rightarrow> if requested c ''pushCert'' then [EvDeletePushCert en b] else []
             | None \<Rightarrow> [])"
    by (simp add: t4 t3 t2 t1 b3 b2 b1)
  then have ev: "new_events s s4 = 
          (case distributionCert (getBundle (world s) en b) of
             Some dc \<Rightarrow>
               if requested c ''distributionCert'' then [EvRemoveIosDist ?rv ?ni dc] else []
           | None \<Rightarrow> [])
          @ (case pushKey (getBundle (world s) en b) of
               Some pk \<Rightarrow> if requested c ''pushKey'' then [EvRemoveIosPush ?rv ?ni pk] else []
             | None \<Rightarrow> [])
          @ (case provisioningProfile (getBundle (world s) en b) of
               Some pp \<Rightarrow>
                 if requested c ''provisioningProfile''
                 then [EvRemoveProvisioningProfile ?rv ?ni (getAppCredentials (world s2) en b)]
                 else []
             | None \<Rightarrow> [])
          @ (case pushCert (getBundle (world s) en b) of
               Some pc \<Rightarrow> if requested c ''pushCert'' then [EvDeletePushCert en b] else []
             | None \<Rightarrow> [])"
    by (simp add: new_events_def)
  show ?thesis unfolding fin by (intro conjI r bd ev[unfolded ac])
qed


lemma clearCredentials_nothing_present:
  assumes "getDistCert (world s) en b = None" and "getPushKey (world s) en b = None"
    and "getProvisioningProfile (world s) en b = None" and "getPushCert (world s) en b = None"
  shows "clearCredentials env this en b c s = (Inr (), s)"
  using assms by (simp add: clearCredentials_def Let_def bindM_def returnM_def)

text \<open>
  C6. In \<open>clearCredentials\<close>, whatever the collaborators do, a removal is called only
  for an entry that was requested, and with none of the four artifacts in the store the
  phase is a no-op that succeeds. With the removal views of the spec the phase always
  succeeds and does exactly this: each artifact is removed when it was requested and is
  left as it was otherwise, and a removal is called exactly for the artifacts that were
  requested and were present, in the order certificate, push key, profile, legacy push
  certificate. In particular clearing the provisioning profile leaves the distribution
  certificate, and clearing the distribution certificate leaves the profile.
\<close>

theorem clearCredentials_guarded_independent:
  fixes s :: "'r state" and t :: "string list state"
  shows
  "(clearCredentials env this en b c s = (r, s') \<longrightarrow>
      list_all (clear_event_ok c) (new_events s s'))
   \<and> (getDistCert (world s) en b = None \<and> getPushKey (world s) en b = None
        \<and> getProvisioningProfile (world s) en b = None \<and> getPushCert (world s) en b = None
      \<longrightarrow> clearCredentials env this en b c s = (Inr (), s))
   \<and> (clearCredentials (with_spec_removers envs) this en b c t = (rt, t') \<longrightarrow>
        rt = Inr ()
        \<and> getBundle (world t') en b
            = \<lparr>distributionCert =
                 (if requested c ''distributionCert'' then None
                  else distributionCert (getBundle (world t) en b)),
               pushKey =
                 (if requested c ''pushKey'' then None
                  else pushKey (getBundle (world t) en b)),
               pushCert =
                 (if requested c ''pushCert'' then None
                  else pushCert (getBundle (world t) en b)),
               provisioningProfile =
                 (if requested c ''provisioningProfile'' then None
                  else provisioningProfile (getBundle (world t) en b))\<rparr>
        \<and> new_events t t'
            = (case distributionCert (getBundle (world t) en b) of
                 Some dc \<Rightarrow>
                   if requested c ''distributionCert''
                   then [EvRemoveIosDist (truthy (opt_revokeCredentials (this_options this)))
                           (nonInteractive_of (this_options this)) dc]
                   else []
               | None \<Rightarrow> [])
              @ (case pushKey (getBundle (world t) en b) of
                   Some pk \<Rightarrow>
                     if requested c ''pushKey''
                     then [EvRemoveIosPush (truthy (opt_revokeCredentials (this_options this)))
                             (nonInteractive_of (this_options this)) pk]
                     else []
                 | None \<Rightarrow> [])
              @ (case provisioningProfile (getBundle (world t) en b) of
                   Some pp \<Rightarrow>
                     if requested c ''provisioningProfile''
                     then [EvRemoveProvisioningProfile
                             (truthy (opt_revokeCredentials (this_options this)))
                             (nonInteractive_of (this_options this))
                             \<lparr>ac_experienceName = en, ac_bundleIdentifier = b,
                              ac_credentials = (getBundle (world t) en b)
                                \<lparr>distributionCert :=
                                   if requested c ''distributionCert'' then None
                                   else distributionCert (getBundle (world t) en b),
                                 pushKey :=
                                   if requested c ''pushKey'' then None
                                   else pushKey (getBundle (world t) en b)\<rparr>\<rparr>]
                     else []
                 | None \<Rightarrow> [])
              @ (case pushCert (getBundle (world t) en b) of
                   Some pc \<Rightarrow> if requested c ''pushCert'' then [EvDeletePushCert en b] else []
                 | None \<Rightarrow> [])
        \<and> (\<not> requested c ''distributionCert'' \<longrightarrow>
              getDistCert (world t') en b = getDistCert (world t) en b)
        \<and> (\<not> requested c ''provisioningProfile'' \<longrightarrow>
              getProvisioningProfile (world t') en b = getProvisioningProfile (world t) en b))"
proof (intro conjI impI)
  assume "clearCredentials env this en b c s = (r, s')"
  then show "list_all (clear_event_ok c) (new_events s s')"
    by (rule clearCredentials_new_events)
next
  assume "getDistCert (world s) en b = None \<and> getPushKey (world s) en b = None
        \<and> getProvisioningProfile (world s) en b = None \<and> getPushCert (world s) en b = None"
  then show "clearCredentials env this en b c s = (Inr (), s)"
    by (simp add: clearCredentials_nothing_present)
next
  assume run: "clearCredentials (with_spec_removers envs) this en b c t = (rt, t')"
  note k = clearCredentials_spec_removers[OF run]
  from k show "rt = Inr ()" by (rule conjunct1)
  from k show "getBundle (world t') en b
            = \<lparr>distributionCert =
                 (if requested c ''distributionCert'' then None
                  else distributionCert (getBundle (world t) en b)),
               pushKey =
                 (if requested c ''pushKey'' then None
                  else pushKey (getBundle (world t) en b)),
               pushCert =
                 (if requested c ''pushCert'' then None
                  else pushCert (getBundle (world t) en b)),
               provisioningProfile =
                 (if requested c ''provisioningProfile'' then None
                  else provisioningProfile (getBundle (world t) en b))\<rparr>"
    by (rule conjunct1[OF conjunct2])
  from k show "new_events t t'
            = (case distributionCert (getBundle (world t) en b) of
                 Some dc \<Rightarrow>
                   if requested c ''distributionCert''
                   then [EvRemoveIosDist (truthy (opt_revokeCredentials (this_options this)))
                           (nonInteractive_of (this_options this)) dc]
                   else []
               | None \<Rightarrow> [])
              @ (case pushKey (getBundle (world t) en b) of
                   Some pk \<Rightarrow>
                     if requested c ''pushKey''
                     then [EvRemoveIosPush (truthy (opt_revokeCredentials (this_options this)))
                             (nonInteractive_of (this_options this)) pk]
                     else []
                 | None \<Rightarrow> [])
              @ (case provisioningProfile (getBundle (world t) en b) of
                   Some pp \<Rightarrow>
                     if requested c ''provisioningProfile''
                     then [EvRemoveProvisioningProfile
                             (truthy (opt_revokeCredentials (this_options this)))
                             (nonInteractive_of (this_options this))
                             \<lparr>ac_experienceName = en, ac_bundleIdentifier = b,
                              ac_credentials = (getBundle (world t) en b)
                                \<lparr>distributionCert :=
                                   if requested c ''distributionCert'' then None
                                   else distributionCert (getBundle (world t) en b),
                                 pushKey :=
                                   if requested c ''pushKey'' then None
                                   else pushKey (getBundle (world t) en b)\<rparr>\<rparr>]
                     else []
                 | None \<Rightarrow> [])
              @ (case pushCert (getBundle (world t) en b) of
                   Some pc \<Rightarrow> if requested c ''pushCert'' then [EvDeletePushCert en b] else []
                 | None \<Rightarrow> [])"
    by (rule conjunct2[OF conjunct2])
  {
    assume "\<not> requested c ''distributionCert''"
    with k show "getDistCert (world t') en b = getDistCert (world t) en b"
      by (simp add: getDistCert_def)
  }
  {
    assume "\<not> requested c ''provisioningProfile''"
    with k show "getProvisioningProfile (world t') en b = getProvisioningProfile (world t) en b"
      by (simp add: getProvisioningProfile_def)
  }
qed

text \<open>
  An empty store with everything requested: nothing happens. A full store: clearing only
  the profile leaves the certificate, clearing only the certificate leaves the profile.
\<close>

theorem clearCredentials_guarded_independent_witness:
  "clearCredentials demo_env (demo_builder demo_options) ''@acme/app'' ''com.acme.app''
       [(''distributionCert'', True), (''pushKey'', True), (''pushCert'', True),
        (''provisioningProfile'', True)] (demo_state [])
     = (Inr (), demo_state [])
   \<and> fst (clearCredentials (with_spec_removers demo_env) (demo_builder demo_options)
        ''@acme/app'' ''com.acme.app'' [(''provisioningProfile'', True)]
        (demo_state demo_full_store)) = Inr ()
   \<and> getDistCert (world (snd (clearCredentials (with_spec_removers demo_env)
        (demo_builder demo_options) ''@acme/app'' ''com.acme.app''
        [(''provisioningProfile'', True)] (demo_state demo_full_store))))
        ''@acme/app'' ''com.acme.app'' = Some demo_cert
   \<and> getProvisioningProfile (world (snd (clearCredentials (with_spec_removers demo_env)
        (demo_builder demo_options) ''@acme/app'' ''com.acme.app''
        [(''provisioningProfile'', True)] (demo_state demo_full_store))))
        ''@acme/app'' ''com.acme.app'' = None
   \<and> getProvisioningProfile (world (snd (clearCredentials (with_spec_removers demo_env)
        (demo_builder demo_options) ''@acme/app'' ''com.acme.app''
        [(''distributionCert'', True)] (demo_state demo_full_store))))
        ''@acme/app'' ''com.acme.app'' = Some demo_profile
   \<and> getDistCert (world (snd (clearCredentials (with_spec_removers demo_env)
        (demo_builder demo_options) ''@acme/app'' ''com.acme.app''
        [(''distributionCert'', True)] (demo_state demo_full_store))))
        ''@acme/app'' ''com.acme.app'' = None
   \<and> new_events (demo_state demo_full_store)
        (snd (clearCredentials (with_spec_removers demo_env)
        (demo_builder demo_options) ''@acme/app'' ''com.acme.app''
        [(''distributionCert'', True)] (demo_state demo_full_store)))
       = [EvRemoveIosDist False False demo_cert]"
proof -
  let ?e = "''@acme/app''" and ?b = "''com.acme.app''"
  let ?bld = "demo_builder demo_options"
  let ?full = "demo_state demo_full_store"
  let ?runP = "clearCredentials (with_spec_removers demo_env) ?bld ?e ?b
                 [(''provisioningProfile'', True)] ?full"
  let ?runD = "clearCredentials (with_spec_removers demo_env) ?bld ?e ?b
                 [(''distributionCert'', True)] ?full"
  have absent: "getDistCert (world (demo_state [])) ?e ?b = None
      \<and> getPushKey (world (demo_state [])) ?e ?b = None
      \<and> getProvisioningProfile (world (demo_state [])) ?e ?b = None
      \<and> getPushCert (world (demo_state [])) ?e ?b = None"
    by (simp add: store_defs demo_defs)
  have full: "getBundle (world ?full) ?e ?b
      = \<lparr>distributionCert = Some demo_cert, pushKey = Some demo_key,
         pushCert = Some demo_pushCert, provisioningProfile = Some demo_profile\<rparr>"
    by (simp add: getBundle_def demo_state_def demo_full_store_def)
  have rq: "requested [(''provisioningProfile'', True)] ''provisioningProfile''"
    "\<not> requested [(''provisioningProfile'', True)] ''distributionCert''"
    "requested [(''distributionCert'', True)] ''distributionCert''"
    "\<not> requested [(''distributionCert'', True)] ''provisioningProfile''"
    "\<not> requested [(''distributionCert'', True)] ''pushKey''"
    "\<not> requested [(''distributionCert'', True)] ''pushCert''"
    by (simp_all add: requested_def)
  have opts: "truthy (opt_revokeCredentials (this_options ?bld)) = False"
    "nonInteractive_of (this_options ?bld) = False"
    by (simp_all add: demo_defs js_defs)
  note t0 = clearCredentials_guarded_independent[where env = demo_env and this = ?bld
      and en = ?e and b = ?b and s = "demo_state []"
      and c = "[(''distributionCert'', True), (''pushKey'', True), (''pushCert'', True),
        (''provisioningProfile'', True)]"]
  note tP = clearCredentials_guarded_independent[where envs = demo_env and this = ?bld
      and en = ?e and b = ?b and t = ?full and c = "[(''provisioningProfile'', True)]"
      and rt = "fst ?runP" and t' = "snd ?runP"]
  note tD = clearCredentials_guarded_independent[where envs = demo_env and this = ?bld
      and en = ?e and b = ?b and t = ?full and c = "[(''distributionCert'', True)]"
      and rt = "fst ?runD" and t' = "snd ?runD"]
  from mp[OF t0[THEN conjunct2, THEN conjunct1] absent] have a: "clearCredentials demo_env ?bld ?e ?b
       [(''distributionCert'', True), (''pushKey'', True), (''pushCert'', True),
        (''provisioningProfile'', True)] (demo_state []) = (Inr (), demo_state [])" .
  have runP: "?runP = (fst ?runP, snd ?runP)" and runD: "?runD = (fst ?runD, snd ?runD)"
    by simp_all
  from mp[OF tP[THEN conjunct2, THEN conjunct2] runP] have p: "fst ?runP = Inr ()"
    "getDistCert (world (snd ?runP)) ?e ?b = Some demo_cert"
    "getProvisioningProfile (world (snd ?runP)) ?e ?b = None"
    by (simp_all add: full rq getDistCert_def getProvisioningProfile_def)
  from mp[OF tD[THEN conjunct2, THEN conjunct2] runD] have d: "getProvisioningProfile (world (snd ?runD)) ?e ?b = Some demo_profile"
    "getDistCert (world (snd ?runD)) ?e ?b = None"
    "new_events ?full (snd ?runD) = [EvRemoveIosDist False False demo_cert]"
    by (simp_all add: full rq opts getDistCert_def getProvisioningProfile_def)
  from a p d show ?thesis by (intro conjI)
qed

subsection \<open>C2: the hard gate of the production phase\<close>

lemma produceCredentials_gate_closed:
  assumes reg: "(case appleCtx (world s) of
              Some actx \<Rightarrow>
                call (EvEnsureAppExists actx en b True) (ensureAppExists env actx en b True)
            | None \<Rightarrow> returnM ()) s = (Inr (), s0)"
    and dist: "setupDistCert env this en b (getAppCredentials (world s) en b) s0 = (Inr (), s1)"
    and absent: "getDistCert (world s1) en b = None"
  shows "produceCredentials env this en b s = (Inl insufficientCredentialsError, s1)"
  using reg dist absent
  by (simp add: produceCredentials_def Let_def bindM_def throwM_def)

lemma registration_grows:
  assumes reg: "(case appleCtx (world s) of
              Some actx \<Rightarrow>
                call (EvEnsureAppExists actx en b True) (ensureAppExists env actx en b True)
            | None \<Rightarrow> returnM ()) s = (r, s0)"
  shows "grows is_registration s s0"
proof -
  have "emits is_registration (case appleCtx (world s) of
              Some actx \<Rightarrow>
                call (EvEnsureAppExists actx en b True) (ensureAppExists env actx en b True)
            | None \<Rightarrow> returnM ())"
    by (intro emits_rules) simp
  then show ?thesis using reg by (rule emitsD)
qed

text \<open>
  C2. In \<open>produceCredentials\<close>, when the registration step and the distribution
  certificate step have succeeded and the certificate read back from the store is absent,
  the call fails with the \<open>INSUFFICIENT_CREDENTIALS\<close> error in the state the certificate
  step left: nothing runs after the gate, and the run holds no push-key step and no
  provisioning-profile step.
\<close>

theorem produceCredentials_hard_gate:
  assumes reg: "(case appleCtx (world s) of
              Some actx \<Rightarrow>
                call (EvEnsureAppExists actx en b True) (ensureAppExists env actx en b True)
            | None \<Rightarrow> returnM ()) s = (Inr (), s0)"
    and dist: "setupDistCert env this en b (getAppCredentials (world s) en b) s0 = (Inr (), s1)"
    and absent: "getDistCert (world s1) en b = None"
  shows "produceCredentials env this en b s = (Inl insufficientCredentialsError, s1)
    \<and> err_code insufficientCredentialsError = Some ''INSUFFICIENT_CREDENTIALS''
    \<and> list_all (\<lambda>ev. \<not> is_push_step ev \<and> \<not> is_profile_step ev)
         (new_events s (snd (produceCredentials env this en b s)))"
proof -
  have run: "produceCredentials env this en b s = (Inl insufficientCredentialsError, s1)"
    using reg dist absent by (rule produceCredentials_gate_closed)
  have g0: "grows is_registration s s0" using reg by (rule registration_grows)
  have g1: "grows (\<lambda>ev. is_dist_step ev
      \<or> ev = EvLogError ''Failed to set up Distribution Certificate'') s0 s1"
    using setupDistCert_emits dist by (rule emitsD)
  have "grows (\<lambda>ev. \<not> is_push_step ev \<and> \<not> is_profile_step ev) s s1"
  proof (rule grows_trans)
    show "grows (\<lambda>ev. \<not> is_push_step ev \<and> \<not> is_profile_step ev) s s0"
      using g0 by (rule grows_mono) (auto elim: is_registration.elims)
    show "grows (\<lambda>ev. \<not> is_push_step ev \<and> \<not> is_profile_step ev) s0 s1"
      using g1 by (rule grows_mono) (auto elim: is_dist_step.elims)
  qed
  then have "list_all (\<lambda>ev. \<not> is_push_step ev \<and> \<not> is_profile_step ev) (new_events s s1)"
    by (rule grows_new_events)
  with run show ?thesis by (simp add: insufficientCredentialsError_def)
qed


text \<open>
  A certificate set-up that returns without storing a certificate (the operator declined):
  the only call is that set-up.
\<close>

theorem produceCredentials_hard_gate_witness:
  "produceCredentials (demo_env\<lparr>runSetupIosDist := (\<lambda>e b nonInter w. (Inr (), w))\<rparr>)
      (demo_builder demo_options) ''@acme/app'' ''com.acme.app'' (demo_state [])
     = (Inl (CommandError ''INSUFFICIENT_CREDENTIALS''
               ''This build request requires a valid distribution certificate.''),
        \<lparr>world = \<lparr>appleCtx = None, store = [], remote = []\<rparr>,
         trace = [EvSetupIosDist ''@acme/app'' ''com.acme.app'' False]\<rparr>)"
proof -
  let ?env = "demo_env\<lparr>runSetupIosDist := (\<lambda>e b nonInter w. (Inr (), w))\<rparr>"
  let ?bld = "demo_builder demo_options"
  let ?s = "demo_state []"
  let ?s1 = "\<lparr>world = \<lparr>appleCtx = None, store = [], remote = []\<rparr>,
         trace = [EvSetupIosDist ''@acme/app'' ''com.acme.app'' False]\<rparr> :: string list state"
  have reg: "(case appleCtx (world ?s) of
              Some actx \<Rightarrow>
                call (EvEnsureAppExists actx ''@acme/app'' ''com.acme.app'' True)
                  (ensureAppExists ?env actx ''@acme/app'' ''com.acme.app'' True)
            | None \<Rightarrow> returnM ()) ?s = (Inr (), ?s)"
    by (simp add: demo_state_def returnM_def)
  have dist: "setupDistCert ?env ?bld ''@acme/app'' ''com.acme.app''
      (getAppCredentials (world ?s) ''@acme/app'' ''com.acme.app'') ?s = (Inr (), ?s1)"
    by (simp add: setupDistCert_def prog_defs demo_defs js_defs)
  have absent: "getDistCert (world ?s1) ''@acme/app'' ''com.acme.app'' = None"
    by (simp add: store_defs)
  from produceCredentials_hard_gate[OF reg dist absent] show ?thesis
    by (simp add: insufficientCredentialsError_def)
qed

subsection \<open>C7: the order of the production phase\<close>

lemma stays_in_Nil: "stays_in lo hi []"
  by (simp add: stays_in_def)

lemma stays_in_append:
  "stays_in lo mid xs \<Longrightarrow> stays_in mid hi ys \<Longrightarrow> lo \<le> mid \<Longrightarrow> mid \<le> hi
     \<Longrightarrow> stays_in lo hi (xs @ ys)"
  by (fastforce simp add: stays_in_def sorted_wrt_append list_all_iff)

lemma setupDistCert_stage:
  assumes "setupDistCert env this en b ac s = (r, s')"
  shows "\<exists>evs. trace s' = trace s @ evs \<and> stays_in 1 2 evs"
  using assms unfolding setupDistCert_def prog_defs stays_in_def is_production_event_def
  by (auto split: sum.splits option.splits prod.splits)

lemma setupPushCert_stage:
  assumes "setupPushCert env this en b ac s = (r, s')"
  shows "\<exists>evs. trace s' = trace s @ evs \<and> stays_in 2 3 evs"
  using assms unfolding setupPushCert_def prog_defs stays_in_def is_production_event_def
  by (auto split: sum.splits option.splits prod.splits)

lemma setupProvisioningProfile_stage:
  assumes "setupProvisioningProfile env this en b ac dc s = (r, s')"
  shows "\<exists>evs. trace s' = trace s @ evs \<and> stays_in 3 4 evs"
  using assms unfolding setupProvisioningProfile_def prog_defs stays_in_def
    is_production_event_def
  by (auto split: sum.splits option.splits prod.splits)

lemma setupDistCert_success:
  assumes "setupDistCert env this en b ac s = (Inr (), s')"
  shows "\<exists>ev. trace s' = trace s @ [ev] \<and> is_dist_step ev"
  using assms unfolding setupDistCert_def prog_defs
  by (auto split: sum.splits option.splits prod.splits)

lemma setupPushCert_success:
  assumes "setupPushCert env this en b ac s = (Inr (), s')"
  shows "\<exists>ev. trace s' = trace s @ [ev] \<and> is_push_step ev"
  using assms unfolding setupPushCert_def prog_defs
  by (auto split: sum.splits option.splits prod.splits)

lemma setupProvisioningProfile_success:
  assumes "setupProvisioningProfile env this en b ac dc s = (Inr (), s')"
  shows "\<exists>ev. trace s' = trace s @ [ev] \<and> is_profile_step ev \<and> profile_step_cert ev = Some dc"
  using assms unfolding setupProvisioningProfile_def prog_defs
  by (auto split: sum.splits option.splits prod.splits)

lemma registration_trace:
  assumes "(case appleCtx (world s) of
              Some actx \<Rightarrow>
                call (EvEnsureAppExists actx en b True) (ensureAppExists env actx en b True)
            | None \<Rightarrow> returnM ()) s = (r, s0)"
  shows "trace s0 = trace s @ registration_events s en b"
  using assms
  by (auto simp add: registration_events_def call_def returnM_def split: option.splits prod.splits)


lemma registration_events_stage: "stays_in 0 1 (registration_events s en b)"
  by (simp add: registration_events_def stays_in_def is_production_event_def
      split: option.splits)

lemma registration_events_filter:
  "filter is_registration (registration_events s en b) = registration_events s en b"
  by (simp add: registration_events_def split: option.splits)

lemma stays_in_no_registration:
  assumes "stays_in lo hi evs" and "0 < lo"
  shows "filter is_registration evs = []"
proof -
  have "\<not> is_registration ev" if "ev \<in> set evs" for ev
  proof
    assume reg: "is_registration ev"
    then have "is_production_event ev" and "stage ev = 0"
      by (auto simp add: is_production_event_def elim: is_registration.elims)
    with that have "0 \<in> set (map stage (filter is_production_event evs))"
      by force
    with assms show False by (auto simp add: stays_in_def list_all_iff)
  qed
  then show ?thesis by (simp add: filter_empty_conv)
qed

lemma produceCredentials_decompose:
  assumes run: "produceCredentials env this en b s = (r, s')"
  shows "\<exists>evs1 evs2 evs3.
      trace s' = trace s @ registration_events s en b @ evs1 @ evs2 @ evs3
      \<and> stays_in 1 2 evs1 \<and> stays_in 2 3 evs2 \<and> stays_in 3 4 evs3"
proof -
  let ?reg = "case appleCtx (world s) of
              Some actx \<Rightarrow>
                call (EvEnsureAppExists actx en b True) (ensureAppExists env actx en b True)
            | None \<Rightarrow> returnM ()"
  let ?ac = "getAppCredentials (world s) en b"
  obtain r0 s0 where reg: "?reg s = (r0, s0)" by (cases "?reg s")
  have t0: "trace s0 = trace s @ registration_events s en b"
    using reg by (rule registration_trace)
  show ?thesis
  proof (cases r0)
    case (Inl e)
    with run reg have "s' = s0" by (simp add: produceCredentials_def Let_def bindM_def)
    with t0 have "trace s' = trace s @ registration_events s en b @ [] @ [] @ []" by simp
    then show ?thesis using stays_in_Nil by blast
  next
    case r0: (Inr u)
    obtain r1 s1 where dist: "setupDistCert env this en b ?ac s0 = (r1, s1)"
      by (cases "setupDistCert env this en b ?ac s0")
    obtain evs1 where t1: "trace s1 = trace s0 @ evs1" and i1: "stays_in 1 2 evs1"
      using setupDistCert_stage[OF dist] by blast
    have stop1: "trace s1 = trace s @ registration_events s en b @ evs1 @ [] @ []"
      using t0 t1 by simp
    show ?thesis
    proof (cases r1)
      case (Inl e)
      with run reg r0 dist have "s' = s1"
        by (simp add: produceCredentials_def Let_def bindM_def)
      with stop1 i1 show ?thesis using stays_in_Nil by blast
    next
      case r1: (Inr u1)
      show ?thesis
      proof (cases "getDistCert (world s1) en b")
        case None
        with run reg r0 dist r1 have "s' = s1"
          by (simp add: produceCredentials_def Let_def bindM_def throwM_def)
        with stop1 i1 show ?thesis using stays_in_Nil by blast
      next
        case (Some dc)
        obtain r2 s2 where push: "setupPushCert env this en b ?ac s1 = (r2, s2)"
          by (cases "setupPushCert env this en b ?ac s1")
        obtain evs2 where t2: "trace s2 = trace s1 @ evs2" and i2: "stays_in 2 3 evs2"
          using setupPushCert_stage[OF push] by blast
        have stop2: "trace s2 = trace s @ registration_events s en b @ evs1 @ evs2 @ []"
          using t0 t1 t2 by simp
        show ?thesis
        proof (cases r2)
          case (Inl e)
          with run reg r0 dist r1 Some push have "s' = s2"
            by (simp add: produceCredentials_def Let_def bindM_def)
          with stop2 i1 i2 show ?thesis using stays_in_Nil by blast
        next
          case r2: (Inr u2)
          with run reg r0 dist r1 Some push
          have prof: "setupProvisioningProfile env this en b ?ac dc s2 = (r, s')"
            by (simp add: produceCredentials_def Let_def bindM_def)
          obtain evs3 where t3: "trace s' = trace s2 @ evs3" and i3: "stays_in 3 4 evs3"
            using setupProvisioningProfile_stage[OF prof] by blast
          have "trace s' = trace s @ registration_events s en b @ evs1 @ evs2 @ evs3"
            using t0 t1 t2 t3 by simp
          with i1 i2 i3 show ?thesis by blast
        qed
      qed
    qed
  qed
qed

lemma produceCredentials_success:
  assumes run: "produceCredentials env this en b s = (Inr (), s')"
  shows "\<exists>s0 s1 dc evD evP evPP.
           trace s0 = trace s @ registration_events s en b
         \<and> setupDistCert env this en b (getAppCredentials (world s) en b) s0 = (Inr (), s1)
         \<and> getDistCert (world s1) en b = Some dc
         \<and> new_events s s' = registration_events s en b @ [evD, evP, evPP]
         \<and> is_dist_step evD \<and> is_push_step evP \<and> is_profile_step evPP
         \<and> profile_step_cert evPP = Some dc"
proof -
  let ?reg = "case appleCtx (world s) of
              Some actx \<Rightarrow>
                call (EvEnsureAppExists actx en b True) (ensureAppExists env actx en b True)
            | None \<Rightarrow> returnM ()"
  let ?ac = "getAppCredentials (world s) en b"
  obtain r0 s0 where reg: "?reg s = (r0, s0)" by (cases "?reg s")
  have t0: "trace s0 = trace s @ registration_events s en b"
    using reg by (rule registration_trace)
  from run reg obtain u0 where r0: "r0 = Inr u0"
    by (cases r0) (simp_all add: produceCredentials_def Let_def bindM_def)
  obtain r1 s1 where dist: "setupDistCert env this en b ?ac s0 = (r1, s1)"
    by (cases "setupDistCert env this en b ?ac s0")
  from run reg r0 dist have r1: "r1 = Inr ()"
    by (cases r1) (simp_all add: produceCredentials_def Let_def bindM_def)
  from run reg r0 dist r1 obtain dc where dc: "getDistCert (world s1) en b = Some dc"
    by (cases "getDistCert (world s1) en b")
       (simp_all add: produceCredentials_def Let_def bindM_def throwM_def)
  obtain r2 s2 where push: "setupPushCert env this en b ?ac s1 = (r2, s2)"
    by (cases "setupPushCert env this en b ?ac s1")
  from run reg r0 dist r1 dc push have r2: "r2 = Inr ()"
    by (cases r2) (simp_all add: produceCredentials_def Let_def bindM_def)
  from run reg r0 dist r1 dc push r2
  have prof: "setupProvisioningProfile env this en b ?ac dc s2 = (Inr (), s')"
    by (simp add: produceCredentials_def Let_def bindM_def)
  from dist r1 obtain evD where d: "trace s1 = trace s0 @ [evD]" "is_dist_step evD"
    using setupDistCert_success by blast
  from push r2 obtain evP where p: "trace s2 = trace s1 @ [evP]" "is_push_step evP"
    using setupPushCert_success by blast
  from prof obtain evPP where pp: "trace s' = trace s2 @ [evPP]" "is_profile_step evPP"
      "profile_step_cert evPP = Some dc"
    using setupProvisioningProfile_success by blast
  have "new_events s s' = registration_events s en b @ [evD, evP, evPP]"
    using t0 d(1) p(1) pp(1) by (simp add: new_events_def)
  with t0 dist r1 dc d(2) p(2) pp(2,3) show ?thesis by blast
qed

text \<open>
  C7. In every run of \<open>produceCredentials\<close>, whatever its outcome, the registration
  calls are exactly \<open>registration_events\<close> (one call, asking for push notifications, when
  an authenticated session exists, none otherwise) and the production steps of the run
  are in strictly increasing stage order: registration, distribution certificate, push
  key, provisioning profile. A successful run is the registration (if any) followed by
  exactly one certificate step, one push-key step and one profile step, and the profile
  step is handed the certificate read back from the store after the certificate step.
\<close>

theorem produceCredentials_order:
  "(produceCredentials env this en b s = (r, s') \<longrightarrow>
       filter is_registration (new_events s s') = registration_events s en b
     \<and> sorted_wrt (<) (map stage (filter is_production_event (new_events s s'))))
   \<and> (produceCredentials env this en b s = (Inr (), t') \<longrightarrow>
       (\<exists>s0 s1 dc evD evP evPP.
           trace s0 = trace s @ registration_events s en b
         \<and> setupDistCert env this en b (getAppCredentials (world s) en b) s0 = (Inr (), s1)
         \<and> getDistCert (world s1) en b = Some dc
         \<and> new_events s t' = registration_events s en b @ [evD, evP, evPP]
         \<and> is_dist_step evD \<and> is_push_step evP \<and> is_profile_step evPP
         \<and> profile_step_cert evPP = Some dc))"
proof (intro conjI impI)
  assume run: "produceCredentials env this en b s = (r, s')"
  then obtain evs1 evs2 evs3 where
    t: "trace s' = trace s @ registration_events s en b @ evs1 @ evs2 @ evs3"
    and i: "stays_in 1 2 evs1" "stays_in 2 3 evs2" "stays_in 3 4 evs3"
    using produceCredentials_decompose by blast
  from t have n: "new_events s s' = registration_events s en b @ evs1 @ evs2 @ evs3"
    by (simp add: new_events_def)
  show "filter is_registration (new_events s s') = registration_events s en b"
    using i by (simp add: n registration_events_filter stays_in_no_registration)
  have "stays_in 2 4 (evs2 @ evs3)" using i(2,3) by (rule stays_in_append) simp_all
  with i(1) have "stays_in 1 4 (evs1 @ evs2 @ evs3)" by (rule stays_in_append) simp_all
  with registration_events_stage
  have "stays_in 0 4 (registration_events s en b @ evs1 @ evs2 @ evs3)"
    by (rule stays_in_append) simp_all
  then show "sorted_wrt (<) (map stage (filter is_production_event (new_events s s')))"
    by (simp add: n stays_in_def)
next
  assume "produceCredentials env this en b s = (Inr (), t')"
  then show "\<exists>s0 s1 dc evD evP evPP.
           trace s0 = trace s @ registration_events s en b
         \<and> setupDistCert env this en b (getAppCredentials (world s) en b) s0 = (Inr (), s1)
         \<and> getDistCert (world s1) en b = Some dc
         \<and> new_events s t' = registration_events s en b @ [evD, evP, evPP]
         \<and> is_dist_step evD \<and> is_push_step evP \<and> is_profile_step evPP
         \<and> profile_step_cert evPP = Some dc"
    by (rule produceCredentials_success)
qed

text \<open>A run with a session on an empty store, every step creating its artifact.\<close>

theorem produceCredentials_order_witness:
  "produceCredentials demo_env (demo_builder demo_options) ''@acme/app'' ''com.acme.app''
      \<lparr>world = \<lparr>appleCtx = Some (AppleCtx ''session''), store = [], remote = []\<rparr>, trace = []\<rparr>
     = (Inr (),
        \<lparr>world = \<lparr>appleCtx = Some (AppleCtx ''session''),
                  store = [((''@acme/app'', ''com.acme.app''),
                            \<lparr>distributionCert = Some demo_cert, pushKey = Some demo_key,
                             pushCert = None, provisioningProfile = Some demo_profile\<rparr>)],
                  remote = []\<rparr>,
         trace = [EvEnsureAppExists (AppleCtx ''session'') ''@acme/app'' ''com.acme.app'' True,
                  EvSetupIosDist ''@acme/app'' ''com.acme.app'' False,
                  EvSetupIosPush ''@acme/app'' ''com.acme.app'' False,
                  EvSetupIosProvisioningProfile ''@acme/app'' ''com.acme.app'' demo_cert
                    False]\<rparr>)
   \<and> filter is_registration
        [EvEnsureAppExists (AppleCtx ''session'') ''@acme/app'' ''com.acme.app'' True,
         EvSetupIosDist ''@acme/app'' ''com.acme.app'' False,
         EvSetupIosPush ''@acme/app'' ''com.acme.app'' False,
         EvSetupIosProvisioningProfile ''@acme/app'' ''com.acme.app'' demo_cert False]
       = [EvEnsureAppExists (AppleCtx ''session'') ''@acme/app'' ''com.acme.app'' True]
   \<and> sorted_wrt (<) (map stage (filter is_production_event
        [EvEnsureAppExists (AppleCtx ''session'') ''@acme/app'' ''com.acme.app'' True,
         EvSetupIosDist ''@acme/app'' ''com.acme.app'' False,
         EvSetupIosPush ''@acme/app'' ''com.acme.app'' False,
         EvSetupIosProvisioningProfile ''@acme/app'' ''com.acme.app'' demo_cert False]))"
proof -
  let ?s = "\<lparr>world = \<lparr>appleCtx = Some (AppleCtx ''session''), store = [], remote = []\<rparr>,
             trace = []\<rparr> :: string list state"
  let ?evs = "[EvEnsureAppExists (AppleCtx ''session'') ''@acme/app'' ''com.acme.app'' True,
         EvSetupIosDist ''@acme/app'' ''com.acme.app'' False,
         EvSetupIosPush ''@acme/app'' ''com.acme.app'' False,
         EvSetupIosProvisioningProfile ''@acme/app'' ''com.acme.app'' demo_cert False]"
  let ?s' = "\<lparr>world = \<lparr>appleCtx = Some (AppleCtx ''session''),
                  store = [((''@acme/app'', ''com.acme.app''),
                            \<lparr>distributionCert = Some demo_cert, pushKey = Some demo_key,
                             pushCert = None, provisioningProfile = Some demo_profile\<rparr>)],
                  remote = []\<rparr>,
         trace = ?evs\<rparr> :: string list state"
  have run: "produceCredentials demo_env (demo_builder demo_options) ''@acme/app''
      ''com.acme.app'' ?s = (Inr (), ?s')"
    by (simp add: produceCredentials_def setupDistCert_def setupPushCert_def
        setupProvisioningProfile_def Let_def prog_defs store_defs js_defs demo_defs)
  have ev: "new_events ?s ?s' = ?evs" by (simp add: new_events_def)
  have re: "registration_events ?s ''@acme/app'' ''com.acme.app''
      = [EvEnsureAppExists (AppleCtx ''session'') ''@acme/app'' ''com.acme.app'' True]"
    by (simp add: registration_events_def)
  note g = mp[OF produceCredentials_order[where env = demo_env
        and this = "demo_builder demo_options" and en = "''@acme/app''"
        and b = "''com.acme.app''" and s = ?s and r = "Inr ()" and s' = ?s',
        THEN conjunct1] run]
  from g have "filter is_registration ?evs
       = [EvEnsureAppExists (AppleCtx ''session'') ''@acme/app'' ''com.acme.app'' True]"
    and "sorted_wrt (<) (map stage (filter is_production_event ?evs))"
    unfolding ev re by (rule conjunct1, rule conjunct2)
  with run show ?thesis by (intro conjI)
qed

section \<open>Claims about \<open>prepareCredentials\<close>\<close>

lemma bindM_Inr_D:
  assumes "bindM m f s = (Inr y, s')"
  shows "\<exists>x s1. m s = (Inr x, s1) \<and> f x s1 = (Inr y, s')"
  using assms by (auto simp add: bindM_def split: prod.splits sum.splits)

lemma produceCredentials_registration_failure:
  assumes "appleCtx (world s) = Some actx"
    and "call (EvEnsureAppExists actx en b True) (ensureAppExists env actx en b True) s
           = (Inl e, s0)"
  shows "produceCredentials env this en b s = (Inl e, s0)"
  using assms by (simp add: produceCredentials_def Let_def bindM_def)

lemma produceCredentials_dist_failure:
  assumes "(case appleCtx (world s) of
              Some actx \<Rightarrow>
                call (EvEnsureAppExists actx en b True) (ensureAppExists env actx en b True)
            | None \<Rightarrow> returnM ()) s = (Inr (), s0)"
    and "setupDistCert env this en b (getAppCredentials (world s) en b) s0 = (Inl e, s1)"
  shows "produceCredentials env this en b s = (Inl e, s1)"
  using assms by (simp add: produceCredentials_def Let_def bindM_def)

lemma produceCredentials_push_failure:
  assumes "(case appleCtx (world s) of
              Some actx \<Rightarrow>
                call (EvEnsureAppExists actx en b True) (ensureAppExists env actx en b True)
            | None \<Rightarrow> returnM ()) s = (Inr (), s0)"
    and "setupDistCert env this en b (getAppCredentials (world s) en b) s0 = (Inr (), s1)"
    and "getDistCert (world s1) en b = Some dc"
    and "setupPushCert env this en b (getAppCredentials (world s) en b) s1 = (Inl e, s2)"
  shows "produceCredentials env this en b s = (Inl e, s2)"
  using assms by (simp add: produceCredentials_def Let_def bindM_def)

lemma produceCredentials_profile_failure:
  assumes "(case appleCtx (world s) of
              Some actx \<Rightarrow>
                call (EvEnsureAppExists actx en b True) (ensureAppExists env actx en b True)
            | None \<Rightarrow> returnM ()) s = (Inr (), s0)"
    and "setupDistCert env this en b (getAppCredentials (world s) en b) s0 = (Inr (), s1)"
    and "getDistCert (world s1) en b = Some dc"
    and "setupPushCert env this en b (getAppCredentials (world s) en b) s1 = (Inr (), s2)"
    and "setupProvisioningProfile env this en b (getAppCredentials (world s) en b) dc s2
           = (Inl e, s3)"
  shows "produceCredentials env this en b s = (Inl e, s3)"
  using assms by (simp add: produceCredentials_def Let_def bindM_def)

text \<open>
  A resolver logs and rethrows: whichever of its calls fails, it fails with the same
  error, in the state that call left followed by the line of the log.
\<close>

lemma setupDistCert_rethrows:
  assumes "liftE (getDistCertFromParams env (this_options this)) t = (Inl e, u)
      \<or> (\<exists>given. getDistCertFromParams env (this_options this) = Inr (Some given)
            \<and> call (EvUseDistCertFromParams ac given) (useDistCertFromParams env ac given) t
                = (Inl e, u))
      \<or> (getDistCertFromParams env (this_options this) = Inr None
            \<and> call (EvSetupIosDist en b (nonInteractive_of (this_options this)))
                 (runSetupIosDist env en b (nonInteractive_of (this_options this))) t
                = (Inl e, u))"
  shows "setupDistCert env this en b ac t
     = (Inl e, u\<lparr>trace := trace u @ [EvLogError ''Failed to set up Distribution Certificate'']\<rparr>)"
  using assms
  by (auto simp add: setupDistCert_def catchM_def bindM_def liftE_def emit_def throwM_def)

lemma setupPushCert_rethrows:
  assumes "liftE (getPushKeyFromParams env (this_options this)) t = (Inl e, u)
      \<or> (\<exists>given. getPushKeyFromParams env (this_options this) = Inr (Some given)
            \<and> call (EvUsePushKeyFromParams ac given) (usePushKeyFromParams env ac given) t
                = (Inl e, u))
      \<or> (getPushKeyFromParams env (this_options this) = Inr None
            \<and> call (EvSetupIosPush en b (nonInteractive_of (this_options this)))
                 (runSetupIosPush env en b (nonInteractive_of (this_options this))) t
                = (Inl e, u))"
  shows "setupPushCert env this en b ac t
     = (Inl e, u\<lparr>trace := trace u @ [EvLogError ''Failed to set up Push Key'']\<rparr>)"
  using assms
  by (auto simp add: setupPushCert_def catchM_def bindM_def liftE_def emit_def throwM_def)

lemma setupProvisioningProfile_rethrows:
  assumes "liftE (getProvisioningProfileFromParams env (this_options this)) t = (Inl e, u)
      \<or> (\<exists>given. getProvisioningProfileFromParams env (this_options this) = Inr (Some given)
            \<and> call (EvUseProvisioningProfileFromParams ac (opt_teamId (this_options this))
                      given dc)
                 (useProvisioningProfileFromParams env ac (opt_teamId (this_options this))
                    given dc) t
                = (Inl e, u))
      \<or> (getProvisioningProfileFromParams env (this_options this) = Inr None
            \<and> call (EvSetupIosProvisioningProfile en b dc
                      (nonInteractive_of (this_options this)))
                 (runSetupIosProvisioningProfile env en b dc
                    (nonInteractive_of (this_options this))) t
                = (Inl e, u))"
  shows "setupProvisioningProfile env this en b ac dc t
     = (Inl e, u\<lparr>trace := trace u @ [EvLogError ''Failed to set up Provisioning Profile'']\<rparr>)"
  using assms
  by (auto simp add: setupProvisioningProfile_def catchM_def bindM_def liftE_def emit_def
      throwM_def)

lemma prepareCredentials_reaches_production:
  assumes i: "ios (this_manifest this) = Some i" and bi: "bundleIdentifier i = Some bid"
    and ne: "bid \<noteq> []"
    and user: "getUsernameAsync env this s = (Inr uname, sl)"
    and en: "en = ''@'' @ template_str uname @ ''/''
                @ template_str (slug (this_manifest this))"
    and prelude: "bindM (call (EvContextInit (this_projectDir this))
                    (\<lambda>w. contextInit env (this_projectDir this) (w\<lparr>appleCtx := None\<rparr>)))
              (\<lambda>u. bindM (clearAndRevokeCredentialsIfRequested env this en bid)
                 (\<lambda>u. bestEffortAppleCtx env this)) sl = (Inr (), s3)"
    and noskip: "\<not> truthy (opt_skipCredentialsCheck (this_options this))"
  shows "prepareCredentials env this s
     = finallyM (catchM (produceCredentials env this en bid) (prepareCredentials_catch env))
         (prepareCredentials_finally en bid) s3"
proof -
  from bindM_Inr_D[OF prelude] obtain u1 s1 where
    c1: "call (EvContextInit (this_projectDir this))
           (\<lambda>w. contextInit env (this_projectDir this) (w\<lparr>appleCtx := None\<rparr>)) sl = (Inr u1, s1)"
    and rest: "bindM (clearAndRevokeCredentialsIfRequested env this en bid)
                 (\<lambda>u. bestEffortAppleCtx env this) s1 = (Inr (), s3)"
    by blast
  from bindM_Inr_D[OF rest] obtain u2 s2 where
    c2: "clearAndRevokeCredentialsIfRequested env this en bid s1 = (Inr u2, s2)"
    and c3: "bestEffortAppleCtx env this s2 = (Inr (), s3)"
    by blast
  show ?thesis
    using i bi ne noskip user c1 c2 c3 unfolding prepareCredentials_def Let_def en
    by (simp add: bindM_def)
qed

lemma getUsernameAsync_no_display:
  assumes "getUsernameAsync env this s = (r, sl)"
  shows "grows (\<lambda>ev. \<not> is_display ev) s sl"
proof -
  have "emits (\<lambda>ev. \<not> is_display ev) (getUsernameAsync env this)"
    by (rule emits_mono[OF getUsernameAsync_emits]) simp
  then show ?thesis using assms by (rule emitsD)
qed

lemma prelude_no_display:
  assumes prelude: "bindM (call (EvContextInit d) f)
              (\<lambda>u. bindM (clearAndRevokeCredentialsIfRequested env this en bid)
                 (\<lambda>u. bestEffortAppleCtx env this)) s = (r, s3)"
  shows "grows (\<lambda>ev. \<not> is_display ev) s s3"
proof -
  have "emits (\<lambda>ev. \<not> is_display ev) (bindM (call (EvContextInit d) f)
              (\<lambda>u. bindM (clearAndRevokeCredentialsIfRequested env this en bid)
                 (\<lambda>u. bestEffortAppleCtx env this)))"
  proof (intro emits_bindM)
    show "emits (\<lambda>ev. \<not> is_display ev) (call (EvContextInit d) f)"
      by (rule emits_call) simp
    show "emits (\<lambda>ev. \<not> is_display ev) (clearAndRevokeCredentialsIfRequested env this en bid)"
      by (rule emits_mono[OF clearAndRevokeCredentialsIfRequested_emits])
         (auto simp add: clear_event_ok_def split: event.splits)
    show "emits (\<lambda>ev. \<not> is_display ev) (bestEffortAppleCtx env this)"
      by (rule emits_mono[OF bestEffortAppleCtx_emits]) (auto elim: is_auth_event.elims)
  qed
  then show ?thesis using prelude by (rule emitsD)
qed

lemma produceCredentials_no_display:
  assumes "produceCredentials env this en b s = (r, s')"
  shows "grows (\<lambda>ev. \<not> is_display ev) s s'"
proof -
  have "emits (\<lambda>ev. \<not> is_display ev) (produceCredentials env this en b)"
    by (rule emits_mono[OF produceCredentials_emits])
       (auto simp add: is_production_event_def
          elim: is_registration.elims is_dist_step.elims is_push_step.elims is_profile_step.elims)
  then show ?thesis using assms by (rule emitsD)
qed

lemma count_display_grows:
  assumes "grows (\<lambda>ev. \<not> is_display ev) s s'"
  shows "filter is_display (trace s') = filter is_display (trace s)"
  using assms by (auto simp add: grows_def list_all_iff filter_empty_conv)

lemma prepareCredentials_failure_reported:
  assumes i: "ios (this_manifest this) = Some i" and bi: "bundleIdentifier i = Some bid"
    and ne: "bid \<noteq> []"
    and user: "getUsernameAsync env this s = (Inr uname, sl)"
    and en: "en = ''@'' @ template_str uname @ ''/''
                @ template_str (slug (this_manifest this))"
    and prelude: "bindM (call (EvContextInit (this_projectDir this))
                    (\<lambda>w. contextInit env (this_projectDir this) (w\<lparr>appleCtx := None\<rparr>)))
              (\<lambda>u. bindM (clearAndRevokeCredentialsIfRequested env this en bid)
                 (\<lambda>u. bestEffortAppleCtx env this)) sl = (Inr (), sp)"
    and noskip: "\<not> truthy (opt_skipCredentialsCheck (this_options this))"
    and prod: "produceCredentials env this en bid sp = (Inl e, sf)"
    and other: "err_code e \<noteq> Some ErrorCodes_NON_INTERACTIVE"
  shows "prepareCredentials env this s
         = (Inl e, sf\<lparr>trace := trace sf @ [EvLog failedToPrepareMessage,
               EvDisplayProjectCredentials en bid (getAllCredentials (world sf))]\<rparr>)"
    and "filter is_display (trace (snd (prepareCredentials env this s)))
           = filter is_display (trace s)
             @ [EvDisplayProjectCredentials en bid (getAllCredentials (world sf))]"
proof -
  have eq: "prepareCredentials env this s
     = finallyM (catchM (produceCredentials env this en bid) (prepareCredentials_catch env))
         (prepareCredentials_finally en bid) sp"
    using i bi ne user en prelude noskip by (rule prepareCredentials_reaches_production)
  show run: "prepareCredentials env this s
         = (Inl e, sf\<lparr>trace := trace sf @ [EvLog failedToPrepareMessage,
               EvDisplayProjectCredentials en bid (getAllCredentials (world sf))]\<rparr>)"
    using prod other
    by (simp add: eq finallyM_def catchM_def prepareCredentials_catch_def
        prepareCredentials_finally_def bindM_def emit_def throwM_def Let_def)
  have "filter is_display (trace sl) = filter is_display (trace s)"
    using user by (intro count_display_grows getUsernameAsync_no_display)
  moreover have "filter is_display (trace sp) = filter is_display (trace sl)"
    using prelude by (intro count_display_grows prelude_no_display)
  moreover have "filter is_display (trace sf) = filter is_display (trace sp)"
    using prod by (intro count_display_grows produceCredentials_no_display)
  ultimately show "filter is_display (trace (snd (prepareCredentials env this s)))
           = filter is_display (trace s)
             @ [EvDisplayProjectCredentials en bid (getAllCredentials (world sf))]"
    by (simp add: run)
qed

subsection \<open>C3: a failure of the production phase is reported and propagated\<close>

text \<open>
  C3, in three layers, each for every set of collaborators.

  The invocation. Let the manifest have a bundle identifier, let the user name be
  obtained, let the context initialisation, the clear phase and the authentication gate
  succeed, and let the credentials check not be skipped. If \<open>produceCredentials\<close> then
  fails with an error whose code is not \<open>NON_INTERACTIVE\<close>, \<open>prepareCredentials\<close>
  fails with that same error, and the report step is called exactly once in the whole
  invocation, after the failure, with the credentials the store holds at that point.

  The production phase. A failure of any of its steps at its turn is the failure of
  \<open>produceCredentials\<close>, in the state that step left, so that no later step runs: the
  registration of the app when there is a session, the certificate step, the push-key
  step once the certificate is in the store, and the profile step after the push-key
  step.

  The resolvers. Each of \<open>_setupDistCert\<close>, \<open>_setupPushCert\<close> and
  \<open>_setupProvisioningProfile\<close> fails with the error of whichever of its calls failed
  (reading the parameters, adopting the artifact they give, or the set-up view), after
  one line of the log.
\<close>

theorem prepareCredentials_reports_failure:
   "(ios (this_manifest this) = Some i \<and> bundleIdentifier i = Some bid \<and> bid \<noteq> []
       \<and> getUsernameAsync env this s = (Inr uname, sl)
       \<and> en = ''@'' @ template_str uname @ ''/'' @ template_str (slug (this_manifest this))
       \<and> bindM (call (EvContextInit (this_projectDir this))
                    (\<lambda>w. contextInit env (this_projectDir this) (w\<lparr>appleCtx := None\<rparr>)))
              (\<lambda>u. bindM (clearAndRevokeCredentialsIfRequested env this en bid)
                 (\<lambda>u. bestEffortAppleCtx env this)) sl = (Inr (), sp)
       \<and> \<not> truthy (opt_skipCredentialsCheck (this_options this))
       \<and> produceCredentials env this en bid sp = (Inl e, sf)
       \<and> err_code e \<noteq> Some ErrorCodes_NON_INTERACTIVE
     \<longrightarrow>
       prepareCredentials env this s
         = (Inl e, sf\<lparr>trace := trace sf @ [EvLog failedToPrepareMessage,
               EvDisplayProjectCredentials en bid (getAllCredentials (world sf))]\<rparr>)
       \<and> filter is_display (trace (snd (prepareCredentials env this s)))
           = filter is_display (trace s)
             @ [EvDisplayProjectCredentials en bid (getAllCredentials (world sf))])
    \<and> (appleCtx (world sp) = Some actx
        \<and> call (EvEnsureAppExists actx en bid True) (ensureAppExists env actx en bid True) sp
            = (Inl e, ta)
       \<longrightarrow> produceCredentials env this en bid sp = (Inl e, ta))
    \<and> ((case appleCtx (world sp) of
              Some actx \<Rightarrow>
                call (EvEnsureAppExists actx en bid True) (ensureAppExists env actx en bid True)
            | None \<Rightarrow> returnM ()) sp = (Inr (), ta)
        \<and> setupDistCert env this en bid (getAppCredentials (world sp) en bid) ta = (Inl e, tb)
       \<longrightarrow> produceCredentials env this en bid sp = (Inl e, tb))
    \<and> ((case appleCtx (world sp) of
              Some actx \<Rightarrow>
                call (EvEnsureAppExists actx en bid True) (ensureAppExists env actx en bid True)
            | None \<Rightarrow> returnM ()) sp = (Inr (), ta)
        \<and> setupDistCert env this en bid (getAppCredentials (world sp) en bid) ta = (Inr (), tb)
        \<and> getDistCert (world tb) en bid = Some dc
        \<and> setupPushCert env this en bid (getAppCredentials (world sp) en bid) tb = (Inl e, tc)
       \<longrightarrow> produceCredentials env this en bid sp = (Inl e, tc))
    \<and> ((case appleCtx (world sp) of
              Some actx \<Rightarrow>
                call (EvEnsureAppExists actx en bid True) (ensureAppExists env actx en bid True)
            | None \<Rightarrow> returnM ()) sp = (Inr (), ta)
        \<and> setupDistCert env this en bid (getAppCredentials (world sp) en bid) ta = (Inr (), tb)
        \<and> getDistCert (world tb) en bid = Some dc
        \<and> setupPushCert env this en bid (getAppCredentials (world sp) en bid) tb = (Inr (), tc)
        \<and> setupProvisioningProfile env this en bid (getAppCredentials (world sp) en bid) dc tc
            = (Inl e, td)
       \<longrightarrow> produceCredentials env this en bid sp = (Inl e, td))
    \<and> (liftE (getDistCertFromParams env (this_options this)) t = (Inl e, u)
        \<or> (\<exists>given. getDistCertFromParams env (this_options this) = Inr (Some given)
              \<and> call (EvUseDistCertFromParams ac given) (useDistCertFromParams env ac given) t
                  = (Inl e, u))
        \<or> (getDistCertFromParams env (this_options this) = Inr None
              \<and> call (EvSetupIosDist en bid (nonInteractive_of (this_options this)))
                   (runSetupIosDist env en bid (nonInteractive_of (this_options this))) t
                  = (Inl e, u))
       \<longrightarrow> setupDistCert env this en bid ac t
             = (Inl e, u\<lparr>trace := trace u
                  @ [EvLogError ''Failed to set up Distribution Certificate'']\<rparr>))
    \<and> (liftE (getPushKeyFromParams env (this_options this)) t = (Inl e, u)
        \<or> (\<exists>given. getPushKeyFromParams env (this_options this) = Inr (Some given)
              \<and> call (EvUsePushKeyFromParams ac given) (usePushKeyFromParams env ac given) t
                  = (Inl e, u))
        \<or> (getPushKeyFromParams env (this_options this) = Inr None
              \<and> call (EvSetupIosPush en bid (nonInteractive_of (this_options this)))
                   (runSetupIosPush env en bid (nonInteractive_of (this_options this))) t
                  = (Inl e, u))
       \<longrightarrow> setupPushCert env this en bid ac t
             = (Inl e, u\<lparr>trace := trace u @ [EvLogError ''Failed to set up Push Key'']\<rparr>))
    \<and> (liftE (getProvisioningProfileFromParams env (this_options this)) t = (Inl e, u)
        \<or> (\<exists>given. getProvisioningProfileFromParams env (this_options this) = Inr (Some given)
              \<and> call (EvUseProvisioningProfileFromParams ac (opt_teamId (this_options this))
                        given dc)
                   (useProvisioningProfileFromParams env ac (opt_teamId (this_options this))
                      given dc) t
                  = (Inl e, u))
        \<or> (getProvisioningProfileFromParams env (this_options this) = Inr None
              \<and> call (EvSetupIosProvisioningProfile en bid dc
                        (nonInteractive_of (this_options this)))
                   (runSetupIosProvisioningProfile env en bid dc
                      (nonInteractive_of (this_options this))) t
                  = (Inl e, u))
       \<longrightarrow> setupProvisioningProfile env this en bid ac dc t
             = (Inl e, u\<lparr>trace := trace u
                  @ [EvLogError ''Failed to set up Provisioning Profile'']\<rparr>))"
proof (intro conjI impI)
  assume h: "ios (this_manifest this) = Some i \<and> bundleIdentifier i = Some bid \<and> bid \<noteq> []
       \<and> getUsernameAsync env this s = (Inr uname, sl)
       \<and> en = ''@'' @ template_str uname @ ''/'' @ template_str (slug (this_manifest this))
       \<and> bindM (call (EvContextInit (this_projectDir this))
                    (\<lambda>w. contextInit env (this_projectDir this) (w\<lparr>appleCtx := None\<rparr>)))
              (\<lambda>u. bindM (clearAndRevokeCredentialsIfRequested env this en bid)
                 (\<lambda>u. bestEffortAppleCtx env this)) sl = (Inr (), sp)
       \<and> \<not> truthy (opt_skipCredentialsCheck (this_options this))
       \<and> produceCredentials env this en bid sp = (Inl e, sf)
       \<and> err_code e \<noteq> Some ErrorCodes_NON_INTERACTIVE"
  from h have i: "ios (this_manifest this) = Some i" by (elim conjE)
  from h have bi: "bundleIdentifier i = Some bid" by (elim conjE)
  from h have ne: "bid \<noteq> []" by (elim conjE)
  from h have user: "getUsernameAsync env this s = (Inr uname, sl)" by (elim conjE)
  from h have en: "en = ''@'' @ template_str uname @ ''/''
      @ template_str (slug (this_manifest this))" by (elim conjE)
  from h have prelude: "bindM (call (EvContextInit (this_projectDir this))
                    (\<lambda>w. contextInit env (this_projectDir this) (w\<lparr>appleCtx := None\<rparr>)))
              (\<lambda>u. bindM (clearAndRevokeCredentialsIfRequested env this en bid)
                 (\<lambda>u. bestEffortAppleCtx env this)) sl = (Inr (), sp)" by (elim conjE)
  from h have noskip: "\<not> truthy (opt_skipCredentialsCheck (this_options this))"
    by (elim conjE)
  from h have prod: "produceCredentials env this en bid sp = (Inl e, sf)" by (elim conjE)
  from h have other: "err_code e \<noteq> Some ErrorCodes_NON_INTERACTIVE" by (elim conjE)
  show "prepareCredentials env this s
         = (Inl e, sf\<lparr>trace := trace sf @ [EvLog failedToPrepareMessage,
               EvDisplayProjectCredentials en bid (getAllCredentials (world sf))]\<rparr>)"
    using i bi ne user en prelude noskip prod other
    by (rule prepareCredentials_failure_reported)
  show "filter is_display (trace (snd (prepareCredentials env this s)))
           = filter is_display (trace s)
             @ [EvDisplayProjectCredentials en bid (getAllCredentials (world sf))]"
    using i bi ne user en prelude noskip prod other
    by (rule prepareCredentials_failure_reported)
next
  assume "appleCtx (world sp) = Some actx
        \<and> call (EvEnsureAppExists actx en bid True) (ensureAppExists env actx en bid True) sp
            = (Inl e, ta)"
  then show "produceCredentials env this en bid sp = (Inl e, ta)"
    by (blast intro: produceCredentials_registration_failure)
next
  assume "(case appleCtx (world sp) of
              Some actx \<Rightarrow>
                call (EvEnsureAppExists actx en bid True) (ensureAppExists env actx en bid True)
            | None \<Rightarrow> returnM ()) sp = (Inr (), ta)
        \<and> setupDistCert env this en bid (getAppCredentials (world sp) en bid) ta = (Inl e, tb)"
  then show "produceCredentials env this en bid sp = (Inl e, tb)"
    by (blast intro: produceCredentials_dist_failure)
next
  assume "(case appleCtx (world sp) of
              Some actx \<Rightarrow>
                call (EvEnsureAppExists actx en bid True) (ensureAppExists env actx en bid True)
            | None \<Rightarrow> returnM ()) sp = (Inr (), ta)
        \<and> setupDistCert env this en bid (getAppCredentials (world sp) en bid) ta = (Inr (), tb)
        \<and> getDistCert (world tb) en bid = Some dc
        \<and> setupPushCert env this en bid (getAppCredentials (world sp) en bid) tb = (Inl e, tc)"
  then show "produceCredentials env this en bid sp = (Inl e, tc)"
    by (blast intro: produceCredentials_push_failure)
next
  assume "(case appleCtx (world sp) of
              Some actx \<Rightarrow>
                call (EvEnsureAppExists actx en bid True) (ensureAppExists env actx en bid True)
            | None \<Rightarrow> returnM ()) sp = (Inr (), ta)
        \<and> setupDistCert env this en bid (getAppCredentials (world sp) en bid) ta = (Inr (), tb)
        \<and> getDistCert (world tb) en bid = Some dc
        \<and> setupPushCert env this en bid (getAppCredentials (world sp) en bid) tb = (Inr (), tc)
        \<and> setupProvisioningProfile env this en bid (getAppCredentials (world sp) en bid) dc tc
            = (Inl e, td)"
  then show "produceCredentials env this en bid sp = (Inl e, td)"
    by (blast intro: produceCredentials_profile_failure)
next
  assume "liftE (getDistCertFromParams env (this_options this)) t = (Inl e, u)
        \<or> (\<exists>given. getDistCertFromParams env (this_options this) = Inr (Some given)
              \<and> call (EvUseDistCertFromParams ac given) (useDistCertFromParams env ac given) t
                  = (Inl e, u))
        \<or> (getDistCertFromParams env (this_options this) = Inr None
              \<and> call (EvSetupIosDist en bid (nonInteractive_of (this_options this)))
                   (runSetupIosDist env en bid (nonInteractive_of (this_options this))) t
                  = (Inl e, u))"
  then show "setupDistCert env this en bid ac t
             = (Inl e, u\<lparr>trace := trace u
                  @ [EvLogError ''Failed to set up Distribution Certificate'']\<rparr>)"
    by (rule setupDistCert_rethrows)
next
  assume "liftE (getPushKeyFromParams env (this_options this)) t = (Inl e, u)
        \<or> (\<exists>given. getPushKeyFromParams env (this_options this) = Inr (Some given)
              \<and> call (EvUsePushKeyFromParams ac given) (usePushKeyFromParams env ac given) t
                  = (Inl e, u))
        \<or> (getPushKeyFromParams env (this_options this) = Inr None
              \<and> call (EvSetupIosPush en bid (nonInteractive_of (this_options this)))
                   (runSetupIosPush env en bid (nonInteractive_of (this_options this))) t
                  = (Inl e, u))"
  then show "setupPushCert env this en bid ac t
             = (Inl e, u\<lparr>trace := trace u @ [EvLogError ''Failed to set up Push Key'']\<rparr>)"
    by (rule setupPushCert_rethrows)
next
  assume "liftE (getProvisioningProfileFromParams env (this_options this)) t = (Inl e, u)
        \<or> (\<exists>given. getProvisioningProfileFromParams env (this_options this) = Inr (Some given)
              \<and> call (EvUseProvisioningProfileFromParams ac (opt_teamId (this_options this))
                        given dc)
                   (useProvisioningProfileFromParams env ac (opt_teamId (this_options this))
                      given dc) t
                  = (Inl e, u))
        \<or> (getProvisioningProfileFromParams env (this_options this) = Inr None
              \<and> call (EvSetupIosProvisioningProfile en bid dc
                        (nonInteractive_of (this_options this)))
                   (runSetupIosProvisioningProfile env en bid dc
                      (nonInteractive_of (this_options this))) t
                  = (Inl e, u))"
  then show "setupProvisioningProfile env this en bid ac dc t
             = (Inl e, u\<lparr>trace := trace u
                  @ [EvLogError ''Failed to set up Provisioning Profile'']\<rparr>)"
    by (rule setupProvisioningProfile_rethrows)
qed

text \<open>
  Three runs on an empty store, the operator absent. A remote authority error during the
  push-key acquisition, the certificate having been created: the set-up view fails, so
  \<open>_setupPushCert\<close> fails, so \<open>produceCredentials\<close> fails, so the error comes back
  from \<open>prepareCredentials\<close>, and the one report shows the bundle with the certificate
  only. The same error during the profile set-up, the certificate and the push key having
  been created: the report shows both. And, with an Apple session (an \<open>appleId\<close> is
  given), the same error from the registration of the app: the report shows an empty
  store.
\<close>

theorem prepareCredentials_reports_failure_witness:
  "prepareCredentials
      (demo_env\<lparr>runSetupIosPush :=
         (\<lambda>e b nonInter w. (Inl (Error ''RemoteAuthorityError: network''), w))\<rparr>)
      (demo_builder demo_options) (demo_state [])
     = (Inl (Error ''RemoteAuthorityError: network''),
        \<lparr>world = \<lparr>appleCtx = None,
                  store = [((''@acme/app'', ''com.acme.app''),
                            \<lparr>distributionCert = Some demo_cert, pushKey = None,
                             pushCert = None, provisioningProfile = None\<rparr>)],
                  remote = []\<rparr>,
         trace = [EvContextInit ''/project'', EvPrompt authPromptMessage,
                  EvLog noProblemMessage,
                  EvSetupIosDist ''@acme/app'' ''com.acme.app'' False,
                  EvSetupIosPush ''@acme/app'' ''com.acme.app'' False,
                  EvLogError ''Failed to set up Push Key'',
                  EvLog failedToPrepareMessage,
                  EvDisplayProjectCredentials ''@acme/app'' ''com.acme.app''
                    [((''@acme/app'', ''com.acme.app''),
                      \<lparr>distributionCert = Some demo_cert, pushKey = None,
                       pushCert = None, provisioningProfile = None\<rparr>)]]\<rparr>)
   \<and> filter is_display (trace (snd (prepareCredentials
        (demo_env\<lparr>runSetupIosPush :=
           (\<lambda>e b nonInter w. (Inl (Error ''RemoteAuthorityError: network''), w))\<rparr>)
        (demo_builder demo_options) (demo_state []))))
     = [EvDisplayProjectCredentials ''@acme/app'' ''com.acme.app''
          [((''@acme/app'', ''com.acme.app''),
            \<lparr>distributionCert = Some demo_cert, pushKey = None,
             pushCert = None, provisioningProfile = None\<rparr>)]]
   \<and> prepareCredentials
      (demo_env\<lparr>runSetupIosProvisioningProfile :=
         (\<lambda>e b dc nonInter w. (Inl (Error ''RemoteAuthorityError: network''), w))\<rparr>)
      (demo_builder demo_options) (demo_state [])
     = (Inl (Error ''RemoteAuthorityError: network''),
        \<lparr>world = \<lparr>appleCtx = None,
                  store = [((''@acme/app'', ''com.acme.app''),
                            \<lparr>distributionCert = Some demo_cert, pushKey = Some demo_key,
                             pushCert = None, provisioningProfile = None\<rparr>)],
                  remote = []\<rparr>,
         trace = [EvContextInit ''/project'', EvPrompt authPromptMessage,
                  EvLog noProblemMessage,
                  EvSetupIosDist ''@acme/app'' ''com.acme.app'' False,
                  EvSetupIosPush ''@acme/app'' ''com.acme.app'' False,
                  EvSetupIosProvisioningProfile ''@acme/app'' ''com.acme.app'' demo_cert False,
                  EvLogError ''Failed to set up Provisioning Profile'',
                  EvLog failedToPrepareMessage,
                  EvDisplayProjectCredentials ''@acme/app'' ''com.acme.app''
                    [((''@acme/app'', ''com.acme.app''),
                      \<lparr>distributionCert = Some demo_cert, pushKey = Some demo_key,
                       pushCert = None, provisioningProfile = None\<rparr>)]]\<rparr>)
   \<and> prepareCredentials
      (demo_env\<lparr>ensureAppExists :=
         (\<lambda>actx e b push w. (Inl (Error ''RemoteAuthorityError: network''), w))\<rparr>)
      (demo_builder (demo_options\<lparr>opt_appleId := Some ''dev@acme.com''\<rparr>)) (demo_state [])
     = (Inl (Error ''RemoteAuthorityError: network''),
        \<lparr>world = \<lparr>appleCtx = Some (AppleCtx ''dev@acme.com''), store = [], remote = []\<rparr>,
         trace = [EvContextInit ''/project'',
                  EvEnsureAppleCtx (demo_options\<lparr>opt_appleId := Some ''dev@acme.com''\<rparr>),
                  EvEnsureAppExists (AppleCtx ''dev@acme.com'') ''@acme/app'' ''com.acme.app''
                    True,
                  EvLog failedToPrepareMessage,
                  EvDisplayProjectCredentials ''@acme/app'' ''com.acme.app'' []]\<rparr>)"
proof -
  let ?e = "''@acme/app''" and ?b = "''com.acme.app''"
  let ?err = "Error ''RemoteAuthorityError: network''"
  let ?bld = "demo_builder demo_options"
  let ?i = "\<lparr>bundleIdentifier = Some ?b\<rparr>"
  let ?pre = "[EvContextInit ''/project'', EvPrompt authPromptMessage, EvLog noProblemMessage]"
  let ?certOnly = "[((?e, ?b), \<lparr>distributionCert = Some demo_cert, pushKey = None,
                             pushCert = None, provisioningProfile = None\<rparr>)]"
  let ?certKey = "[((?e, ?b), \<lparr>distributionCert = Some demo_cert, pushKey = Some demo_key,
                             pushCert = None, provisioningProfile = None\<rparr>)]"
  let ?sp = "\<lparr>world = \<lparr>appleCtx = None, store = [], remote = []\<rparr>, trace = ?pre\<rparr>
             :: string list state"
  let ?tb = "\<lparr>world = \<lparr>appleCtx = None, store = ?certOnly, remote = []\<rparr>,
              trace = ?pre @ [EvSetupIosDist ?e ?b False]\<rparr> :: string list state"
  have i: "ios (this_manifest ?bld) = Some ?i" by (simp add: demo_builder_def)
  have bi: "bundleIdentifier ?i = Some ?b" by simp
  have ne: "?b \<noteq> []" by simp
  have en: "?e = ''@'' @ template_str (Some ''acme'') @ ''/''
                @ template_str (slug (this_manifest ?bld))"
    by (simp add: demo_defs js_defs)
  have noskip: "\<not> truthy (opt_skipCredentialsCheck (this_options ?bld))"
    by (simp add: demo_defs js_defs)
  have other: "err_code ?err \<noteq> Some ErrorCodes_NON_INTERACTIVE" by simp

  let ?env = "demo_env\<lparr>runSetupIosPush := (\<lambda>e b nonInter w. (Inl ?err, w))\<rparr>"
  let ?u = "\<lparr>world = \<lparr>appleCtx = None, store = ?certOnly, remote = []\<rparr>,
             trace = ?pre @ [EvSetupIosDist ?e ?b False, EvSetupIosPush ?e ?b False]\<rparr>
            :: string list state"
  let ?tc = "?u\<lparr>trace := trace ?u @ [EvLogError ''Failed to set up Push Key'']\<rparr>"
  note T = prepareCredentials_reports_failure[where env = ?env and this = ?bld
      and s = "demo_state []" and i = ?i and bid = ?b and uname = "Some ''acme''"
      and sl = "demo_state []" and en = ?e and sp = ?sp and e = ?err and sf = ?tc
      and ta = ?sp and tb = ?tb and dc = demo_cert and tc = ?tc and t = ?tb and u = ?u
      and ac = "getAppCredentials (world ?sp) ?e ?b"]
  have user: "getUsernameAsync ?env ?bld (demo_state []) = (Inr (Some ''acme''), demo_state [])"
    by (simp add: getUsernameAsync_def returnM_def demo_builder_def truthy_str_def)
  have prelude: "bindM (call (EvContextInit (this_projectDir ?bld))
                    (\<lambda>w. contextInit ?env (this_projectDir ?bld) (w\<lparr>appleCtx := None\<rparr>)))
              (\<lambda>u. bindM (clearAndRevokeCredentialsIfRequested ?env ?bld ?e ?b)
                 (\<lambda>u. bestEffortAppleCtx ?env ?bld)) (demo_state []) = (Inr (), ?sp)"
    by (simp add: clearAndRevokeCredentialsIfRequested_def bestEffortAppleCtx_def Let_def
        prog_defs demo_defs js_defs)
  have reg: "(case appleCtx (world ?sp) of
              Some actx \<Rightarrow>
                call (EvEnsureAppExists actx ?e ?b True) (ensureAppExists ?env actx ?e ?b True)
            | None \<Rightarrow> returnM ()) ?sp = (Inr (), ?sp)"
    by (simp add: returnM_def)
  have dist: "setupDistCert ?env ?bld ?e ?b (getAppCredentials (world ?sp) ?e ?b) ?sp
      = (Inr (), ?tb)"
    by (simp add: setupDistCert_def prog_defs store_defs demo_defs js_defs)
  have cert: "getDistCert (world ?tb) ?e ?b = Some demo_cert"
    by (simp add: store_defs)
  have view: "liftE (getPushKeyFromParams ?env (this_options ?bld)) ?tb = (Inl ?err, ?u)
        \<or> (\<exists>given. getPushKeyFromParams ?env (this_options ?bld) = Inr (Some given)
              \<and> call (EvUsePushKeyFromParams (getAppCredentials (world ?sp) ?e ?b) given)
                   (usePushKeyFromParams ?env (getAppCredentials (world ?sp) ?e ?b) given) ?tb
                  = (Inl ?err, ?u))
        \<or> (getPushKeyFromParams ?env (this_options ?bld) = Inr None
              \<and> call (EvSetupIosPush ?e ?b (nonInteractive_of (this_options ?bld)))
                   (runSetupIosPush ?env ?e ?b (nonInteractive_of (this_options ?bld))) ?tb
                  = (Inl ?err, ?u))"
    by (simp add: liftE_def call_def demo_defs js_defs)
  from mp[OF T[THEN conjunct2, THEN conjunct2, THEN conjunct2, THEN conjunct2, THEN conjunct2,
        THEN conjunct2, THEN conjunct1] view]
  have push: "setupPushCert ?env ?bld ?e ?b (getAppCredentials (world ?sp) ?e ?b) ?tb
      = (Inl ?err, ?tc)" .
  from mp[OF T[THEN conjunct2, THEN conjunct2, THEN conjunct2, THEN conjunct1]
      conjI[OF reg conjI[OF dist conjI[OF cert push]]]]
  have prod: "produceCredentials ?env ?bld ?e ?b ?sp = (Inl ?err, ?tc)" .
  note A = mp[OF T[THEN conjunct1] conjI[OF i conjI[OF bi conjI[OF ne conjI[OF user
      conjI[OF en conjI[OF prelude conjI[OF noskip conjI[OF prod other]]]]]]]]]
  from A[THEN conjunct1] have run: "prepareCredentials ?env ?bld (demo_state [])
     = (Inl ?err,
        \<lparr>world = \<lparr>appleCtx = None, store = ?certOnly, remote = []\<rparr>,
         trace = ?pre @ [EvSetupIosDist ?e ?b False, EvSetupIosPush ?e ?b False,
                  EvLogError ''Failed to set up Push Key'', EvLog failedToPrepareMessage,
                  EvDisplayProjectCredentials ?e ?b ?certOnly]\<rparr>)"
    by (simp add: getAllCredentials_def)
  from A[THEN conjunct2] have once: "filter is_display (trace (snd (prepareCredentials
        ?env ?bld (demo_state []))))
     = [EvDisplayProjectCredentials ?e ?b ?certOnly]"
    by (simp add: getAllCredentials_def demo_state_def)

  let ?envp = "demo_env\<lparr>runSetupIosProvisioningProfile :=
      (\<lambda>e b dc nonInter w. (Inl ?err, w))\<rparr>"
  let ?tk = "\<lparr>world = \<lparr>appleCtx = None, store = ?certKey, remote = []\<rparr>,
              trace = ?pre @ [EvSetupIosDist ?e ?b False, EvSetupIosPush ?e ?b False]\<rparr>
             :: string list state"
  let ?up = "\<lparr>world = \<lparr>appleCtx = None, store = ?certKey, remote = []\<rparr>,
              trace = ?pre @ [EvSetupIosDist ?e ?b False, EvSetupIosPush ?e ?b False,
                EvSetupIosProvisioningProfile ?e ?b demo_cert False]\<rparr>
             :: string list state"
  let ?td = "?up\<lparr>trace := trace ?up @ [EvLogError ''Failed to set up Provisioning Profile'']\<rparr>"
  note P = prepareCredentials_reports_failure[where env = ?envp and this = ?bld
      and s = "demo_state []" and i = ?i and bid = ?b and uname = "Some ''acme''"
      and sl = "demo_state []" and en = ?e and sp = ?sp and e = ?err and sf = ?td
      and ta = ?sp and tb = ?tb and dc = demo_cert and tc = ?tk and td = ?td and t = ?tk
      and u = ?up and ac = "getAppCredentials (world ?sp) ?e ?b"]
  have userp: "getUsernameAsync ?envp ?bld (demo_state [])
      = (Inr (Some ''acme''), demo_state [])"
    by (simp add: getUsernameAsync_def returnM_def demo_builder_def truthy_str_def)
  have preludep: "bindM (call (EvContextInit (this_projectDir ?bld))
                    (\<lambda>w. contextInit ?envp (this_projectDir ?bld) (w\<lparr>appleCtx := None\<rparr>)))
              (\<lambda>u. bindM (clearAndRevokeCredentialsIfRequested ?envp ?bld ?e ?b)
                 (\<lambda>u. bestEffortAppleCtx ?envp ?bld)) (demo_state []) = (Inr (), ?sp)"
    by (simp add: clearAndRevokeCredentialsIfRequested_def bestEffortAppleCtx_def Let_def
        prog_defs demo_defs js_defs)
  have regp: "(case appleCtx (world ?sp) of
              Some actx \<Rightarrow>
                call (EvEnsureAppExists actx ?e ?b True) (ensureAppExists ?envp actx ?e ?b True)
            | None \<Rightarrow> returnM ()) ?sp = (Inr (), ?sp)"
    by (simp add: returnM_def)
  have distp: "setupDistCert ?envp ?bld ?e ?b (getAppCredentials (world ?sp) ?e ?b) ?sp
      = (Inr (), ?tb)"
    by (simp add: setupDistCert_def prog_defs store_defs demo_defs js_defs)
  have pushp: "setupPushCert ?envp ?bld ?e ?b (getAppCredentials (world ?sp) ?e ?b) ?tb
      = (Inr (), ?tk)"
    by (simp add: setupPushCert_def prog_defs store_defs demo_defs js_defs)
  have viewp: "liftE (getProvisioningProfileFromParams ?envp (this_options ?bld)) ?tk
          = (Inl ?err, ?up)
        \<or> (\<exists>given. getProvisioningProfileFromParams ?envp (this_options ?bld) = Inr (Some given)
              \<and> call (EvUseProvisioningProfileFromParams (getAppCredentials (world ?sp) ?e ?b)
                        (opt_teamId (this_options ?bld)) given demo_cert)
                   (useProvisioningProfileFromParams ?envp (getAppCredentials (world ?sp) ?e ?b)
                      (opt_teamId (this_options ?bld)) given demo_cert) ?tk
                  = (Inl ?err, ?up))
        \<or> (getProvisioningProfileFromParams ?envp (this_options ?bld) = Inr None
              \<and> call (EvSetupIosProvisioningProfile ?e ?b demo_cert
                        (nonInteractive_of (this_options ?bld)))
                   (runSetupIosProvisioningProfile ?envp ?e ?b demo_cert
                      (nonInteractive_of (this_options ?bld))) ?tk
                  = (Inl ?err, ?up))"
    by (simp add: liftE_def call_def demo_defs js_defs)
  from mp[OF P[THEN conjunct2, THEN conjunct2, THEN conjunct2, THEN conjunct2, THEN conjunct2,
        THEN conjunct2, THEN conjunct2] viewp]
  have profile: "setupProvisioningProfile ?envp ?bld ?e ?b
      (getAppCredentials (world ?sp) ?e ?b) demo_cert ?tk = (Inl ?err, ?td)" .
  from mp[OF P[THEN conjunct2, THEN conjunct2, THEN conjunct2, THEN conjunct2, THEN conjunct1]
      conjI[OF regp conjI[OF distp conjI[OF cert conjI[OF pushp profile]]]]]
  have prodp: "produceCredentials ?envp ?bld ?e ?b ?sp = (Inl ?err, ?td)" .
  note B = mp[OF P[THEN conjunct1] conjI[OF i conjI[OF bi conjI[OF ne conjI[OF userp
      conjI[OF en conjI[OF preludep conjI[OF noskip conjI[OF prodp other]]]]]]]]]
  from B[THEN conjunct1] have runp: "prepareCredentials ?envp ?bld (demo_state [])
     = (Inl ?err,
        \<lparr>world = \<lparr>appleCtx = None, store = ?certKey, remote = []\<rparr>,
         trace = ?pre @ [EvSetupIosDist ?e ?b False, EvSetupIosPush ?e ?b False,
                  EvSetupIosProvisioningProfile ?e ?b demo_cert False,
                  EvLogError ''Failed to set up Provisioning Profile'',
                  EvLog failedToPrepareMessage,
                  EvDisplayProjectCredentials ?e ?b ?certKey]\<rparr>)"
    by (simp add: getAllCredentials_def)

  let ?opts = "demo_options\<lparr>opt_appleId := Some ''dev@acme.com''\<rparr>"
  let ?bldr = "demo_builder ?opts"
  let ?envr = "demo_env\<lparr>ensureAppExists := (\<lambda>actx e b push w. (Inl ?err, w))\<rparr>"
  let ?actx = "AppleCtx ''dev@acme.com''"
  let ?sr = "\<lparr>world = \<lparr>appleCtx = Some ?actx, store = [], remote = []\<rparr>,
              trace = [EvContextInit ''/project'', EvEnsureAppleCtx ?opts]\<rparr>
             :: string list state"
  let ?tr = "\<lparr>world = \<lparr>appleCtx = Some ?actx, store = [], remote = []\<rparr>,
              trace = [EvContextInit ''/project'', EvEnsureAppleCtx ?opts,
                       EvEnsureAppExists ?actx ?e ?b True]\<rparr>
             :: string list state"
  note R = prepareCredentials_reports_failure[where env = ?envr and this = ?bldr
      and s = "demo_state []" and i = ?i and bid = ?b and uname = "Some ''acme''"
      and sl = "demo_state []" and en = ?e and sp = ?sr and e = ?err and sf = ?tr
      and ta = ?tr and actx = ?actx]
  have ir: "ios (this_manifest ?bldr) = Some ?i" by (simp add: demo_builder_def)
  have enr: "?e = ''@'' @ template_str (Some ''acme'') @ ''/''
                @ template_str (slug (this_manifest ?bldr))"
    by (simp add: demo_defs js_defs)
  have noskipr: "\<not> truthy (opt_skipCredentialsCheck (this_options ?bldr))"
    by (simp add: demo_defs js_defs)
  have userr: "getUsernameAsync ?envr ?bldr (demo_state [])
      = (Inr (Some ''acme''), demo_state [])"
    by (simp add: getUsernameAsync_def returnM_def demo_builder_def truthy_str_def)
  have preluder: "bindM (call (EvContextInit (this_projectDir ?bldr))
                    (\<lambda>w. contextInit ?envr (this_projectDir ?bldr) (w\<lparr>appleCtx := None\<rparr>)))
              (\<lambda>u. bindM (clearAndRevokeCredentialsIfRequested ?envr ?bldr ?e ?b)
                 (\<lambda>u. bestEffortAppleCtx ?envr ?bldr)) (demo_state []) = (Inr (), ?sr)"
    by (simp add: clearAndRevokeCredentialsIfRequested_def bestEffortAppleCtx_def Let_def
        prog_defs demo_defs js_defs)
  have session: "appleCtx (world ?sr) = Some ?actx" by simp
  have regr: "call (EvEnsureAppExists ?actx ?e ?b True)
      (ensureAppExists ?envr ?actx ?e ?b True) ?sr = (Inl ?err, ?tr)"
    by (simp add: call_def demo_defs)
  from mp[OF R[THEN conjunct2, THEN conjunct1] conjI[OF session regr]]
  have prodr: "produceCredentials ?envr ?bldr ?e ?b ?sr = (Inl ?err, ?tr)" .
  note C = mp[OF R[THEN conjunct1] conjI[OF ir conjI[OF bi conjI[OF ne conjI[OF userr
      conjI[OF enr conjI[OF preluder conjI[OF noskipr conjI[OF prodr other]]]]]]]]]
  from C[THEN conjunct1] have runr: "prepareCredentials ?envr ?bldr (demo_state [])
     = (Inl ?err,
        \<lparr>world = \<lparr>appleCtx = Some ?actx, store = [], remote = []\<rparr>,
         trace = [EvContextInit ''/project'', EvEnsureAppleCtx ?opts,
                  EvEnsureAppExists ?actx ?e ?b True, EvLog failedToPrepareMessage,
                  EvDisplayProjectCredentials ?e ?b []]\<rparr>)"
    by (simp add: getAllCredentials_def)
  from run once runp runr show ?thesis by simp
qed

subsection \<open>C4: skipping the credentials check\<close>

lemma prepareCredentials_skip_emits:
  assumes skip: "truthy (opt_skipCredentialsCheck (this_options this))"
  shows "emits (\<lambda>ev. \<not> is_auth_event ev \<and> \<not> is_production_event ev \<and> \<not> is_display ev)
           (prepareCredentials env this)"
  (is "emits ?P _")
proof -
  have clear: "emits ?P (clearAndRevokeCredentialsIfRequested env this en b)" for en b
    by (rule emits_mono[OF clearAndRevokeCredentialsIfRequested_emits])
       (auto simp add: clear_event_ok_def is_production_event_def split: event.splits)
  have body: "emits ?P
     (bindM (call (EvContextInit (this_projectDir this))
                      (\<lambda>w. contextInit env (this_projectDir this) (w\<lparr>appleCtx := None\<rparr>)))
               (\<lambda>u. bindM
                  (clearAndRevokeCredentialsIfRequested env this en bid)
                  (\<lambda>u. emit (EvLog ''Skipping credentials check...''))))" for en bid
    by (intro emits_bindM emits_call emits_emit clear) (simp_all add: is_production_event_def)
  have lookup: "emits ?P (getUsernameAsync env this)"
    by (rule emits_mono[OF getUsernameAsync_emits]) (simp add: is_production_event_def)
  show ?thesis
    unfolding emits_def
  proof (intro allI impI)
    fix s r s'
    assume run: "prepareCredentials env this s = (r, s')"
    obtain ru sl where look: "getUsernameAsync env this s = (ru, sl)"
      by (cases "getUsernameAsync env this s")
    have g: "grows ?P s sl" using lookup look by (rule emitsD)
    show "grows ?P s s'"
    proof (cases ru)
      case (Inl e)
      with run look have "s' = sl" by (simp add: prepareCredentials_def bindM_def)
      with g show ?thesis by simp
    next
      case (Inr uname)
      show ?thesis
      proof (cases "truthy_str (case ios (this_manifest this) of None \<Rightarrow> None
                                | Some i \<Rightarrow> bundleIdentifier i)")
        case False
        from prepareCredentials_no_bundleIdentifier[OF False, of env s] run look Inr
        have "s' = sl" by simp
        with g show ?thesis by simp
      next
        case True
        then obtain i bid where "ios (this_manifest this) = Some i"
          "bundleIdentifier i = Some bid" "bid \<noteq> []"
          by (auto simp add: truthy_str_def split: option.splits)
        with run skip look Inr have "bindM (call (EvContextInit (this_projectDir this))
                      (\<lambda>w. contextInit env (this_projectDir this) (w\<lparr>appleCtx := None\<rparr>)))
               (\<lambda>u. bindM
                  (clearAndRevokeCredentialsIfRequested env this
                    (''@'' @ template_str uname @ ''/''
                       @ template_str (slug (this_manifest this))) bid)
                  (\<lambda>u. emit (EvLog ''Skipping credentials check...''))) sl = (r, s')"
          by (simp add: prepareCredentials_def Let_def bindM_def[of "getUsernameAsync env this"])
        with body have "grows ?P sl s'" by (rule emitsD)
        with g show ?thesis by (rule grows_trans)
      qed
    qed
  qed
qed

text \<open>
  C4, as the code has it. When \<open>skipCredentialsCheck\<close> is set, no run of
  \<open>prepareCredentials\<close> holds an authentication call, a production step or a report; the
  look-up of the user name, the bundle identifier check, the context initialisation and
  the clear phase still come first, and when they succeed the call logs that the check
  is skipped and returns successfully in the state the clear phase left. The bundle
  identifier check is not skipped either: without a bundle identifier the call fails
  with the \<open>INVALID_OPTIONS\<close> error as soon as the user name is obtained.
\<close>

theorem prepareCredentials_skipCredentialsCheck:
  assumes skip: "truthy (opt_skipCredentialsCheck (this_options this))"
  shows
   "(prepareCredentials env this s = (r, s') \<longrightarrow>
       list_all (\<lambda>ev. \<not> is_auth_event ev \<and> \<not> is_production_event ev \<and> \<not> is_display ev)
         (new_events s s'))
    \<and> (ios (this_manifest this) = Some i \<and> bundleIdentifier i = Some bid \<and> bid \<noteq> []
        \<and> getUsernameAsync env this s = (Inr uname, sl)
        \<and> bindM (call (EvContextInit (this_projectDir this))
                    (\<lambda>w. contextInit env (this_projectDir this) (w\<lparr>appleCtx := None\<rparr>)))
              (\<lambda>u. clearAndRevokeCredentialsIfRequested env this
                    (''@'' @ template_str uname @ ''/''
                       @ template_str (slug (this_manifest this))) bid) sl = (Inr (), sc)
       \<longrightarrow> prepareCredentials env this s
             = (Inr (), sc\<lparr>trace := trace sc @ [EvLog ''Skipping credentials check...'']\<rparr>))
    \<and> (\<not> truthy_str (case ios (this_manifest this) of None \<Rightarrow> None
                       | Some m \<Rightarrow> bundleIdentifier m)
        \<and> getUsernameAsync env this s = (Inr uname, sl)
       \<longrightarrow> prepareCredentials env this s = (Inl missingBundleIdentifierError, sl))"
proof (intro conjI impI)
  assume "prepareCredentials env this s = (r, s')"
  with prepareCredentials_skip_emits[OF skip] have
    "grows (\<lambda>ev. \<not> is_auth_event ev \<and> \<not> is_production_event ev \<and> \<not> is_display ev) s s'"
    by (rule emitsD)
  then show "list_all (\<lambda>ev. \<not> is_auth_event ev \<and> \<not> is_production_event ev \<and> \<not> is_display ev)
         (new_events s s')"
    by (rule grows_new_events)
next
  assume h: "ios (this_manifest this) = Some i \<and> bundleIdentifier i = Some bid \<and> bid \<noteq> []
        \<and> getUsernameAsync env this s = (Inr uname, sl)
        \<and> bindM (call (EvContextInit (this_projectDir this))
                    (\<lambda>w. contextInit env (this_projectDir this) (w\<lparr>appleCtx := None\<rparr>)))
              (\<lambda>u. clearAndRevokeCredentialsIfRequested env this
                    (''@'' @ template_str uname @ ''/''
                       @ template_str (slug (this_manifest this))) bid) sl = (Inr (), sc)"
  from h have i: "ios (this_manifest this) = Some i" by (elim conjE)
  from h have bi: "bundleIdentifier i = Some bid" by (elim conjE)
  from h have ne: "bid \<noteq> []" by (elim conjE)
  from h have look: "getUsernameAsync env this s = (Inr uname, sl)" by (elim conjE)
  from h have pre: "bindM (call (EvContextInit (this_projectDir this))
                    (\<lambda>w. contextInit env (this_projectDir this) (w\<lparr>appleCtx := None\<rparr>)))
              (\<lambda>u. clearAndRevokeCredentialsIfRequested env this
                    (''@'' @ template_str uname @ ''/''
                       @ template_str (slug (this_manifest this))) bid) sl = (Inr (), sc)"
    by (elim conjE)
  from bindM_Inr_D[OF pre] obtain u1 s1 where
    c1: "call (EvContextInit (this_projectDir this))
           (\<lambda>w. contextInit env (this_projectDir this) (w\<lparr>appleCtx := None\<rparr>)) sl = (Inr u1, s1)"
    and c2: "clearAndRevokeCredentialsIfRequested env this
                    (''@'' @ template_str uname @ ''/''
                       @ template_str (slug (this_manifest this))) bid s1 = (Inr (), sc)"
    by blast
  from i bi ne look skip c1 c2 show "prepareCredentials env this s
             = (Inr (), sc\<lparr>trace := trace sc @ [EvLog ''Skipping credentials check...'']\<rparr>)"
    by (simp add: prepareCredentials_def Let_def bindM_def emit_def)
next
  assume h: "\<not> truthy_str (case ios (this_manifest this) of None \<Rightarrow> None
                       | Some m \<Rightarrow> bundleIdentifier m)
        \<and> getUsernameAsync env this s = (Inr uname, sl)"
  from h have nb: "\<not> truthy_str (case ios (this_manifest this) of None \<Rightarrow> None
                       | Some m \<Rightarrow> bundleIdentifier m)" by (elim conjE)
  from h have look: "getUsernameAsync env this s = (Inr uname, sl)" by (elim conjE)
  from prepareCredentials_no_bundleIdentifier[OF nb, of env s] look
  show "prepareCredentials env this s = (Inl missingBundleIdentifierError, sl)"
    by simp
qed

text \<open>
  With no clear flag, the run is the context initialisation and the log line. Without a
  bundle identifier, the run fails at the check.
\<close>

theorem prepareCredentials_skipCredentialsCheck_witness:
  "truthy (opt_skipCredentialsCheck (this_options (demo_builder
      (demo_options\<lparr>opt_skipCredentialsCheck := Some True\<rparr>))))
   \<and> prepareCredentials demo_env
        (demo_builder (demo_options\<lparr>opt_skipCredentialsCheck := Some True\<rparr>)) (demo_state [])
      = (Inr (), \<lparr>world = \<lparr>appleCtx = None, store = [], remote = []\<rparr>,
                  trace = [EvContextInit ''/project'',
                           EvLog ''Skipping credentials check...'']\<rparr>)
   \<and> list_all (\<lambda>ev. \<not> is_auth_event ev \<and> \<not> is_production_event ev \<and> \<not> is_display ev)
        (new_events (demo_state [])
           \<lparr>world = \<lparr>appleCtx = None, store = [], remote = []\<rparr>,
            trace = [EvContextInit ''/project'', EvLog ''Skipping credentials check...'']\<rparr>)
   \<and> prepareCredentials demo_env
        ((demo_builder (demo_options\<lparr>opt_skipCredentialsCheck := Some True\<rparr>))
          \<lparr>this_manifest := \<lparr>owner = Some ''acme'', slug = Some ''app'', ios = None\<rparr>\<rparr>)
        (demo_state [])
      = (Inl (XDLError ''INVALID_OPTIONS'' noBundleIdMessage), demo_state [])"
proof -
  let ?bld = "demo_builder (demo_options\<lparr>opt_skipCredentialsCheck := Some True\<rparr>)"
  let ?nob = "?bld\<lparr>this_manifest := \<lparr>owner = Some ''acme'', slug = Some ''app'', ios = None\<rparr>\<rparr>"
  let ?s2 = "\<lparr>world = \<lparr>appleCtx = None, store = [], remote = []\<rparr>,
              trace = [EvContextInit ''/project'']\<rparr> :: string list state"
  let ?s' = "\<lparr>world = \<lparr>appleCtx = None, store = [], remote = []\<rparr>,
              trace = [EvContextInit ''/project'',
                       EvLog ''Skipping credentials check...'']\<rparr> :: string list state"
  have skip: "truthy (opt_skipCredentialsCheck (this_options ?bld))"
    by (simp add: demo_defs js_defs)
  have skip': "truthy (opt_skipCredentialsCheck (this_options ?nob))"
    by (simp add: demo_defs js_defs)
  have h: "ios (this_manifest ?bld) = Some \<lparr>bundleIdentifier = Some ''com.acme.app''\<rparr>
      \<and> bundleIdentifier \<lparr>bundleIdentifier = Some ''com.acme.app''\<rparr> = Some ''com.acme.app''
      \<and> ''com.acme.app'' \<noteq> []
      \<and> getUsernameAsync demo_env ?bld (demo_state []) = (Inr (Some ''acme''), demo_state [])
      \<and> bindM (call (EvContextInit (this_projectDir ?bld))
                    (\<lambda>w. contextInit demo_env (this_projectDir ?bld) (w\<lparr>appleCtx := None\<rparr>)))
              (\<lambda>u. clearAndRevokeCredentialsIfRequested demo_env ?bld
                    (''@'' @ template_str (Some ''acme'') @ ''/''
                       @ template_str (slug (this_manifest ?bld))) ''com.acme.app'')
           (demo_state []) = (Inr (), ?s2)"
    by (simp add: clearAndRevokeCredentialsIfRequested_def getUsernameAsync_def Let_def
        prog_defs demo_defs js_defs)
  have h': "\<not> truthy_str (case ios (this_manifest ?nob) of None \<Rightarrow> None
                       | Some m \<Rightarrow> bundleIdentifier m)
      \<and> getUsernameAsync demo_env ?nob (demo_state []) = (Inr (Some ''acme''), demo_state [])"
    by (simp add: getUsernameAsync_def returnM_def demo_defs js_defs)
  note t = prepareCredentials_skipCredentialsCheck[OF skip, where env = demo_env
      and s = "demo_state []" and r = "Inr ()" and s' = ?s' and sc = ?s2
      and uname = "Some ''acme''" and sl = "demo_state []"
      and i = "\<lparr>bundleIdentifier = Some ''com.acme.app''\<rparr>" and bid = "''com.acme.app''"]
  note t' = prepareCredentials_skipCredentialsCheck[OF skip', where env = demo_env
      and s = "demo_state []" and uname = "Some ''acme''" and sl = "demo_state []"]
  from mp[OF t[THEN conjunct2, THEN conjunct1] h]
  have run: "prepareCredentials demo_env ?bld (demo_state []) = (Inr (), ?s')" by simp
  from mp[OF t'[THEN conjunct2, THEN conjunct2] h']
  have run': "prepareCredentials demo_env ?nob (demo_state [])
      = (Inl (XDLError ''INVALID_OPTIONS'' noBundleIdMessage), demo_state [])"
    by (simp add: missingBundleIdentifierError_def)
  from mp[OF t[THEN conjunct1] run] skip run run' show ?thesis by (intro conjI)
qed

text \<open>
  C4 as stated does not hold: the clear phase comes before the test of
  \<open>skipCredentialsCheck\<close>. With \<open>skipCredentialsCheck\<close> and \<open>clearDistCert\<close> set on a
  full store, the distribution certificate is removed.
\<close>

theorem prepareCredentials_skipCredentialsCheck_still_clears:
  "truthy (opt_skipCredentialsCheck (this_options (demo_builder
      (demo_options\<lparr>opt_skipCredentialsCheck := Some True, opt_clearDistCert := Some True\<rparr>))))
   \<and> prepareCredentials demo_env
        (demo_builder
          (demo_options\<lparr>opt_skipCredentialsCheck := Some True, opt_clearDistCert := Some True\<rparr>))
        (demo_state demo_full_store)
      = (Inr (),
         \<lparr>world = \<lparr>appleCtx = None,
                   store = [((''@acme/app'', ''com.acme.app''),
                             \<lparr>distributionCert = None, pushKey = Some demo_key,
                              pushCert = Some demo_pushCert,
                              provisioningProfile = Some demo_profile\<rparr>)],
                   remote = []\<rparr>,
          trace = [EvContextInit ''/project'', EvRemoveIosDist False False demo_cert,
                   EvLog ''Skipping credentials check...'']\<rparr>)
   \<and> is_clear_event (EvRemoveIosDist False False demo_cert)"
  by (simp add: prepareCredentials_def clearAndRevokeCredentialsIfRequested_def
      clearCredentials_def determineCredentialsToClear_def pickBy_def requested_def
      getUsernameAsync_def Let_def prog_defs store_defs js_defs demo_env_def demo_options_def
      demo_builder_def demo_state_def demo_full_store_def RemoveIosDist_removeSpecific_def
      demo_cert_def)

subsection \<open>C1: the non-interactive failure\<close>

text \<open>
  On every run that reaches the production phase, a failure of \<open>produceCredentials\<close>
  with the \<open>NON_INTERACTIVE\<close> code is turned into the \<open>CommandError\<close> of the
  \<open>catch\<close> block, and the \<open>finally\<close> block then reports.
\<close>

lemma prepareCredentials_nonInteractive_path:
  assumes i: "ios (this_manifest this) = Some i" and bi: "bundleIdentifier i = Some bid"
    and ne: "bid \<noteq> []"
    and user: "getUsernameAsync env this s = (Inr uname, sl)"
    and en: "en = ''@'' @ template_str uname @ ''/''
                @ template_str (slug (this_manifest this))"
    and prelude: "bindM (call (EvContextInit (this_projectDir this))
                    (\<lambda>w. contextInit env (this_projectDir this) (w\<lparr>appleCtx := None\<rparr>)))
              (\<lambda>u. bindM (clearAndRevokeCredentialsIfRequested env this en bid)
                 (\<lambda>u. bestEffortAppleCtx env this)) sl = (Inr (), s3)"
    and noskip: "\<not> truthy (opt_skipCredentialsCheck (this_options this))"
    and prod: "produceCredentials env this en bid s3 = (Inl e, s4)"
    and ni: "err_code e = Some ErrorCodes_NON_INTERACTIVE"
  shows "prepareCredentials env this s
     = (Inl unableToProceedError,
        s4\<lparr>trace := trace s4 @
           [EvLogNewLine,
            EvLog ''Additional information needed to setup credentials in non-interactive mode.'',
            EvLog (''Learn more about how to resolve this: ''
              @ terminalLink env ''expo.fyi/credentials-non-interactive''
                  ''https://expo.fyi/credentials-non-interactive'' @ ''.''),
            EvLogNewLine,
            EvDisplayProjectCredentials en bid (getAllCredentials (world s4))]\<rparr>)"
proof -
  have "prepareCredentials env this s
     = finallyM (catchM (produceCredentials env this en bid) (prepareCredentials_catch env))
         (prepareCredentials_finally en bid) s3"
    using i bi ne user en prelude noskip by (rule prepareCredentials_reaches_production)
  with prod ni show ?thesis
    by (simp add: finallyM_def catchM_def prepareCredentials_catch_def
        prepareCredentials_finally_def bindM_def emit_def throwM_def Let_def)
qed

text \<open>
  C1. The code does not do what the claim says. In non-interactive mode on an empty
  store the certificate set-up needs the operator and fails with the
  \<open>NON_INTERACTIVE\<close> code; \<open>prepareCredentials\<close> fails with the \<open>NON_INTERACTIVE\<close>
  \<open>CommandError\<close>, as claimed, but the \<open>finally\<close> block runs on this path too and the
  report step is called, against the comment in the \<open>catch\<close> block.
\<close>

theorem prepareCredentials_nonInteractive_still_reports:
  "prepareCredentials demo_env
      (demo_builder (demo_options\<lparr>opt_parent := Some \<lparr>nonInteractive = Some True\<rparr>\<rparr>))
      (demo_state [])
     = (Inl (CommandError ''NON_INTERACTIVE'' ''Unable to proceed, see the above error message.''),
        \<lparr>world = \<lparr>appleCtx = None, store = [], remote = []\<rparr>,
         trace = [EvContextInit ''/project'',
                  EvSetupIosDist ''@acme/app'' ''com.acme.app'' True,
                  EvLogError ''Failed to set up Distribution Certificate'',
                  EvLogNewLine,
                  EvLog ''Additional information needed to setup credentials in non-interactive mode.'',
                  EvLog ''Learn more about how to resolve this: expo.fyi/credentials-non-interactive.'',
                  EvLogNewLine,
                  EvDisplayProjectCredentials ''@acme/app'' ''com.acme.app'' []]\<rparr>)"
  by (simp add: prepareCredentials_def prepareCredentials_catch_def
      prepareCredentials_finally_def clearAndRevokeCredentialsIfRequested_def
      bestEffortAppleCtx_def produceCredentials_def setupDistCert_def unableToProceedError_def
      getUsernameAsync_def Let_def prog_defs store_defs js_defs demo_env_def demo_options_def
      demo_builder_def demo_state_def needsOperator_def)

section \<open>Claims about the Podfile renderer\<close>

subsection \<open>C10: unrecognized template keys\<close>















end
